theory Spec2Isabelle
  imports Main "HOL-Library.Sublist"
begin

section \<open>Data model of package types\<close>

text \<open>
  Modelled from the spec: the enums Severity (Critical strongest) and Category. Their
  declarations are not among the sources; the constructors are the constants the
  registry and the orchestrator use (types.High, AccessControl and so on).
\<close>

datatype Severity = Critical | High | Medium | Low | Info

datatype Category =
    AccessControl | Authentication | DeviceSecurity | NetworkExposure
  | SSHSecurity | LoggingAdmin | DNSConfiguration

text \<open>
  Modelled from the spec: the FixDescriptor of a finding. Its declaration is not among
  the sources; the fields are those of the serialization contract
  (type, description, admin_url, doc_url).
\<close>

datatype FixType = Manual | API

record FixInfo =
  fix_type :: FixType
  fix_description :: string
  admin_url :: string
  doc_url :: string

text \<open>
  Modelled from the spec: the Suggestion struct. Its declaration is not among the
  sources; the fields are the ones the orchestrator's struct literals set (ID, Title,
  Severity, Category, Description, Remediation, Pass) and the two further ones of the
  spec's data model (Details, Fix). A field a Go literal leaves out has its zero value:
  the empty string, the empty sequence, no fix. The fields ID, Title and Category
  carry the suffix \<open>_f\<close> (finding), since CheckInfo has fields of the same names.
\<close>

record Suggestion =
  ID_f :: string
  Title_f :: string
  Severity :: Severity
  Category_f :: Category
  Description :: string
  Remediation :: string
  Details :: "string list"
  Pass :: bool
  Fix :: "FixInfo option"

text \<open>
  Modelled from the spec: the Summary struct, with the field names of the
  serialization contract. The counters are Go ints that only ever count the elements of
  one slice, upwards from zero, so they are natural numbers here and cannot wrap.
\<close>

record Summary =
  critical :: nat
  high :: nat
  medium :: nat
  low :: nat
  info :: nat
  passed :: nat
  total_count :: nat

definition empty_summary :: Summary where
  "empty_summary =
     \<lparr>critical = 0, high = 0, medium = 0, low = 0, info = 0, passed = 0, total_count = 0\<rparr>"

text \<open>
  Modelled from the spec: CalculateSummary, the method of AuditReport that the
  orchestrator calls and whose body is not among the sources. The spec: "per-severity
  counts of failing suggestions, passed count, total count", "a pure recomputed aggregate
  of Suggestions". One pass over the suggestions, from a zeroed summary: every suggestion
  counts towards the total, a passing one towards passed, a failing one towards the
  counter of its severity.
\<close>

definition count_suggestion :: "Suggestion \<Rightarrow> Summary \<Rightarrow> Summary" where
  "count_suggestion s S =
     (let S1 = S\<lparr>total_count := total_count S + 1\<rparr>
      in if Pass s then S1\<lparr>passed := passed S1 + 1\<rparr>
         else (case Severity s of
                 Critical \<Rightarrow> S1\<lparr>critical := critical S1 + 1\<rparr>
               | High \<Rightarrow> S1\<lparr>high := high S1 + 1\<rparr>
               | Medium \<Rightarrow> S1\<lparr>medium := medium S1 + 1\<rparr>
               | Low \<Rightarrow> S1\<lparr>low := low S1 + 1\<rparr>
               | Info \<Rightarrow> S1\<lparr>info := info S1 + 1\<rparr>))"

definition CalculateSummary :: "Suggestion list \<Rightarrow> Summary" where
  "CalculateSummary xs = fold count_suggestion xs empty_summary"

definition severity_sum :: "Summary \<Rightarrow> nat" where
  "severity_sum S = critical S + high S + medium S + low S + info S"

definition failing :: "Suggestion list \<Rightarrow> Suggestion list" where
  "failing xs = filter (\<lambda>s. \<not> Pass s) xs"

section \<open>Strings\<close>

text \<open>
  A Go string is a sequence of bytes, and so is a \<open>string\<close> here. The functions of the
  Go standard library that the registry calls are written out for the bytes they treat
  themselves. strings.ToUpper, strings.ToLower and strings.TrimSpace each have a path for
  input that is all ASCII and hand any other input to the Unicode tables; those tables
  are not part of this program, so the result on an input with a byte from 0x80 upwards
  is a parameter (\<open>U\<close>, \<open>L\<close> and \<open>T\<close> below).
\<close>

definition isASCII :: "string \<Rightarrow> bool" where
  "isASCII s = list_all (\<lambda>c. (of_char c :: nat) < 128) s"

definition upper_byte :: "char \<Rightarrow> char" where
  "upper_byte c =
     (let n = (of_char c :: nat) in if 97 \<le> n \<and> n \<le> 122 then char_of (n - 32) else c)"

definition lower_byte :: "char \<Rightarrow> char" where
  "lower_byte c =
     (let n = (of_char c :: nat) in if 65 \<le> n \<and> n \<le> 90 then char_of (n + 32) else c)"

definition ToUpper :: "(string \<Rightarrow> string) \<Rightarrow> string \<Rightarrow> string" where
  "ToUpper U s = (if isASCII s then map upper_byte s else U s)"

definition ToLower :: "(string \<Rightarrow> string) \<Rightarrow> string \<Rightarrow> string" where
  "ToLower L s = (if isASCII s then map lower_byte s else L s)"

text \<open>The table asciiSpace: tab, newline, vertical tab, form feed, carriage return, space.\<close>

definition asciiSpace :: "char \<Rightarrow> bool" where
  "asciiSpace c = ((of_char c :: nat) \<in> {9, 10, 11, 12, 13, 32})"

definition trim_both :: "(char \<Rightarrow> bool) \<Rightarrow> string \<Rightarrow> string" where
  "trim_both P s = rev (dropWhile P (rev (dropWhile P s)))"

definition TrimSpace :: "(string \<Rightarrow> string) \<Rightarrow> string \<Rightarrow> string" where
  "TrimSpace T s = (if isASCII s then trim_both asciiSpace s else T s)"

text \<open>strings.Index for a one-byte separator: the first position of the byte, or -1.\<close>

definition Index :: "string \<Rightarrow> char \<Rightarrow> int" where
  "Index s c = (if c \<in> set s then int (length (takeWhile (\<lambda>x. x \<noteq> c) s)) else - 1)"

text \<open>strings.ReplaceAll(s, old, "") for a one-byte old: every occurrence is removed.\<close>

definition remove_byte :: "char \<Rightarrow> string \<Rightarrow> string" where
  "remove_byte c s = filter (\<lambda>x. x \<noteq> c) s"

text \<open>
  The regular expression \<open>[^a-z0-9]+\<close> of slugify, replaced by a hyphen: every maximal run
  of bytes outside a-z and 0-9 becomes one hyphen. The regexp engine reads runes, but a
  rune beyond ASCII is made of bytes from 0x80 upwards only, all outside the class, so
  the runs of runes and the runs of bytes are the same.
\<close>

definition alnum_lower :: "char \<Rightarrow> bool" where
  "alnum_lower c =
     (let n = (of_char c :: nat) in (97 \<le> n \<and> n \<le> 122) \<or> (48 \<le> n \<and> n \<le> 57))"

function replace_runs :: "string \<Rightarrow> string" where
  "replace_runs [] = []"
| "replace_runs (c # cs) =
     (if alnum_lower c then c # replace_runs cs
      else CHR ''-'' # replace_runs (dropWhile (\<lambda>x. \<not> alnum_lower x) cs))"
  by pat_completeness auto
termination
  by (relation "measure length") (auto simp: less_Suc_eq_le length_dropWhile_le)

text \<open>strings.Trim(s, "-").\<close>

definition Trim_hyphen :: "string \<Rightarrow> string" where
  "Trim_hyphen s = trim_both (\<lambda>c. c = CHR ''-'') s"

text \<open>strings.Join.\<close>

fun Join :: "string list \<Rightarrow> string \<Rightarrow> string" where
  "Join [] sep = []"
| "Join [x] sep = x"
| "Join (x # y # ys) sep = x @ sep @ Join (y # ys) sep"

section \<open>The check registry\<close>

record CheckInfo =
  ID :: string
  Slug :: string
  Title :: string
  Category :: Category

record CheckRegistry =
  checks :: "CheckInfo list"
  byID :: "string \<rightharpoonup> CheckInfo"
  bySlug :: "string \<rightharpoonup> CheckInfo"

text \<open>
  slugify. The cut at a parenthesis happens only when the first "(" is not at position
  0. Both ReplaceAll calls of the source have the ASCII apostrophe as their pattern, so
  the second one finds nothing left to remove.
\<close>

definition slugify :: "(string \<Rightarrow> string) \<Rightarrow> (string \<Rightarrow> string) \<Rightarrow> string \<Rightarrow> string" where
  "slugify L T s =
     (let idx = Index s (CHR ''('');
          s1 = (if idx > 0 then TrimSpace T (take (nat idx) s) else s);
          s2 = ToLower L s1;
          s3 = remove_byte (CHR 0x27) s2;
          s4 = remove_byte (CHR 0x27) s3;
          s5 = replace_runs s4
      in Trim_hyphen s5)"

text \<open>A catalog literal \<open>{ID: i, Title: t, Category: c}\<close>: the Slug is the empty string.\<close>

definition entry :: "string \<Rightarrow> string \<Rightarrow> Category \<Rightarrow> CheckInfo" where
  "entry i t c = \<lparr>ID = i, Slug = [], Title = t, Category = c\<rparr>"

definition catalog :: "CheckInfo list" where
  "catalog =
   [entry ''ACL-001'' ''Default 'allow all' policy active'' AccessControl,
    entry ''ACL-002'' ''SSH autogroup:nonroot misconfiguration'' AccessControl,
    entry ''ACL-003'' ''No ACL tests defined'' AccessControl,
    entry ''ACL-004'' ''autogroup:member grants access to external users'' AccessControl,
    entry ''ACL-005'' ''AutoApprovers bypass administrative route approval'' AccessControl,
    entry ''ACL-006'' ''tagOwners grants tag privileges too broadly'' AccessControl,
    entry ''ACL-007'' ''autogroup:danger-all grants access to everyone'' AccessControl,
    entry ''ACL-008'' ''No groups defined in ACL policy'' AccessControl,
    entry ''ACL-009'' ''Using legacy ACLs instead of grants'' AccessControl,
    entry ''ACL-010'' ''Taildrop file sharing configuration'' AccessControl,
    entry ''AUTH-001'' ''Reusable auth keys exist'' Authentication,
    entry ''AUTH-002'' ''Auth keys with long expiry period'' Authentication,
    entry ''AUTH-003'' ''Pre-authorized auth keys bypass device approval'' Authentication,
    entry ''AUTH-004'' ''Non-ephemeral keys may be used for CI/CD'' Authentication,
    entry ''DEV-001'' ''Tagged devices with key expiry disabled'' DeviceSecurity,
    entry ''DEV-002'' ''User devices tagged'' DeviceSecurity,
    entry ''DEV-003'' ''Outdated Tailscale clients'' DeviceSecurity,
    entry ''DEV-004'' ''Stale devices not seen recently'' DeviceSecurity,
    entry ''DEV-005'' ''Unauthorized devices pending approval'' DeviceSecurity,
    entry ''DEV-006'' ''External devices in tailnet'' DeviceSecurity,
    entry ''DEV-007'' ''Potentially sensitive machine names'' DeviceSecurity,
    entry ''DEV-008'' ''Devices with long key expiry periods'' DeviceSecurity,
    entry ''DEV-009'' ''Device approval configuration'' DeviceSecurity,
    entry ''DEV-010'' ''Tailnet Lock not enabled'' DeviceSecurity,
    entry ''DEV-011'' ''Unique users in tailnet'' DeviceSecurity,
    entry ''DEV-012'' ''Nodes awaiting Tailnet Lock signature'' DeviceSecurity,
    entry ''DEV-013'' ''Device posture configuration'' LoggingAdmin,
    entry ''NET-001'' ''Funnel exposes services to public internet'' NetworkExposure,
    entry ''NET-002'' ''Exit node access configuration'' NetworkExposure,
    entry ''NET-003'' ''Subnet routes expose trust boundary'' NetworkExposure,
    entry ''NET-004'' ''HTTPS certificates publish names to CT logs'' NetworkExposure,
    entry ''NET-005'' ''Exit nodes can see all internet traffic'' NetworkExposure,
    entry ''NET-006'' ''Tailscale Serve exposes services on tailnet'' NetworkExposure,
    entry ''NET-007'' ''App connectors provide SaaS access'' NetworkExposure,
    entry ''SSH-001'' ''SSH session recording not enforced'' SSHSecurity,
    entry ''SSH-002'' ''High-risk SSH access without check mode'' SSHSecurity,
    entry ''SSH-003'' ''Session recorder UI may be exposed'' SSHSecurity,
    entry ''SSH-004'' ''Tailscale SSH configuration'' SSHSecurity,
    entry ''LOG-001'' ''Network flow logs configuration'' LoggingAdmin,
    entry ''LOG-002'' ''Log streaming for long-term retention'' LoggingAdmin,
    entry ''LOG-003'' ''Audit log limitations'' LoggingAdmin,
    entry ''LOG-004'' ''Failed login monitoring via IdP'' LoggingAdmin,
    entry ''LOG-005'' ''Webhook secrets never expire'' LoggingAdmin,
    entry ''LOG-006'' ''OAuth clients persist after user removal'' LoggingAdmin,
    entry ''LOG-007'' ''SCIM API keys never expire'' LoggingAdmin,
    entry ''LOG-008'' ''Passkey-authenticated backup admin'' LoggingAdmin,
    entry ''LOG-009'' ''MFA enforcement in identity provider'' LoggingAdmin,
    entry ''LOG-010'' ''DNS rebinding attack protection'' LoggingAdmin,
    entry ''LOG-011'' ''Security contact email configuration'' LoggingAdmin,
    entry ''LOG-012'' ''Webhooks for critical events'' LoggingAdmin,
    entry ''USER-001'' ''Review user roles and ownership'' LoggingAdmin,
    entry ''DNS-001'' ''MagicDNS configuration'' DNSConfiguration]"

text \<open>
  NewCheckRegistry: the loop \<open>for i := range r.checks\<close> writes the slug into entry i and
  stores that entry under its upper-cased ID and under its slug. The Go maps hold
  pointers to the entries of r.checks; an entry is never written again after the
  iteration that stores it, so the maps hold the entries themselves here.
\<close>

definition register_check ::
  "(string \<Rightarrow> string) \<Rightarrow> (string \<Rightarrow> string) \<Rightarrow> (string \<Rightarrow> string)
     \<Rightarrow> nat \<Rightarrow> CheckRegistry \<Rightarrow> CheckRegistry" where
  "register_check U L T i r =
     (let check = (checks r ! i)\<lparr>Slug := slugify L T (Title (checks r ! i))\<rparr>
      in r\<lparr>checks := (checks r)[i := check],
            byID := (byID r)(ToUpper U (ID check) \<mapsto> check),
            bySlug := (bySlug r)(Slug check \<mapsto> check)\<rparr>)"

definition NewCheckRegistry ::
  "(string \<Rightarrow> string) \<Rightarrow> (string \<Rightarrow> string) \<Rightarrow> (string \<Rightarrow> string) \<Rightarrow> CheckRegistry" where
  "NewCheckRegistry U L T =
     fold (register_check U L T) [0..<length catalog]
       \<lparr>checks = catalog, byID = Map.empty, bySlug = Map.empty\<rparr>"

text \<open>
  Resolve returns the pair (ID, true) or ("", false); the pair is an option here,
  \<open>None\<close> for ("", false).
\<close>

definition Resolve ::
  "(string \<Rightarrow> string) \<Rightarrow> (string \<Rightarrow> string) \<Rightarrow> CheckRegistry \<Rightarrow> string \<Rightarrow> string option" where
  "Resolve U L r name =
     (case byID r (ToUpper U name) of
        Some check \<Rightarrow> Some (ID check)
      | None \<Rightarrow>
          (case bySlug r (ToLower L name) of
             Some check \<Rightarrow> Some (ID check)
           | None \<Rightarrow> None))"

text \<open>
  ResolveAll: the loop over the names with its two accumulators, then the result. The
  error is the message of fmt.Errorf; \<open>Inl\<close> carries it.
\<close>

fun resolve_loop ::
  "(string \<Rightarrow> string) \<Rightarrow> (string \<Rightarrow> string) \<Rightarrow> (string \<Rightarrow> string) \<Rightarrow> CheckRegistry
     \<Rightarrow> string list \<Rightarrow> string list \<times> string list \<Rightarrow> string list \<times> string list" where
  "resolve_loop U L T r [] (ids, unknown) = (ids, unknown)"
| "resolve_loop U L T r (n # ns) (ids, unknown) =
     (let name = TrimSpace T n
      in if name = [] then resolve_loop U L T r ns (ids, unknown)
         else (case Resolve U L r name of
                 None \<Rightarrow> resolve_loop U L T r ns (ids, unknown @ [name])
               | Some cid \<Rightarrow> resolve_loop U L T r ns (ids @ [cid], unknown)))"

definition ResolveAll ::
  "(string \<Rightarrow> string) \<Rightarrow> (string \<Rightarrow> string) \<Rightarrow> (string \<Rightarrow> string) \<Rightarrow> CheckRegistry
     \<Rightarrow> string list \<Rightarrow> string + string list" where
  "ResolveAll U L T r names =
     (case resolve_loop U L T r names ([], []) of
        (ids, unknown) \<Rightarrow>
          if length unknown > 0 then Inl (''unknown check(s): '' @ Join unknown '', '')
          else Inr ids)"

text \<open>DefaultRegistry, the registry every caller uses.\<close>

definition DefaultRegistry ::
  "(string \<Rightarrow> string) \<Rightarrow> (string \<Rightarrow> string) \<Rightarrow> (string \<Rightarrow> string) \<Rightarrow> CheckRegistry" where
  "DefaultRegistry U L T = NewCheckRegistry U L T"

section \<open>Notions the properties of the registry are stated with\<close>

text \<open>What one iteration of the registry's loop makes of a catalog entry.\<close>

definition with_slug :: "(string \<Rightarrow> string) \<Rightarrow> (string \<Rightarrow> string) \<Rightarrow> CheckInfo \<Rightarrow> CheckInfo" where
  "with_slug L T c = c\<lparr>Slug := slugify L T (Title c)\<rparr>"

text \<open>The IDs of the catalog, and the slugs its titles have, in catalog order.\<close>

definition catalog_ids :: "string list" where
  "catalog_ids =
   [''ACL-001'',
    ''ACL-002'',
    ''ACL-003'',
    ''ACL-004'',
    ''ACL-005'',
    ''ACL-006'',
    ''ACL-007'',
    ''ACL-008'',
    ''ACL-009'',
    ''ACL-010'',
    ''AUTH-001'',
    ''AUTH-002'',
    ''AUTH-003'',
    ''AUTH-004'',
    ''DEV-001'',
    ''DEV-002'',
    ''DEV-003'',
    ''DEV-004'',
    ''DEV-005'',
    ''DEV-006'',
    ''DEV-007'',
    ''DEV-008'',
    ''DEV-009'',
    ''DEV-010'',
    ''DEV-011'',
    ''DEV-012'',
    ''DEV-013'',
    ''NET-001'',
    ''NET-002'',
    ''NET-003'',
    ''NET-004'',
    ''NET-005'',
    ''NET-006'',
    ''NET-007'',
    ''SSH-001'',
    ''SSH-002'',
    ''SSH-003'',
    ''SSH-004'',
    ''LOG-001'',
    ''LOG-002'',
    ''LOG-003'',
    ''LOG-004'',
    ''LOG-005'',
    ''LOG-006'',
    ''LOG-007'',
    ''LOG-008'',
    ''LOG-009'',
    ''LOG-010'',
    ''LOG-011'',
    ''LOG-012'',
    ''USER-001'',
    ''DNS-001'']"

definition catalog_slugs :: "string list" where
  "catalog_slugs =
   [''default-allow-all-policy-active'',
    ''ssh-autogroup-nonroot-misconfiguration'',
    ''no-acl-tests-defined'',
    ''autogroup-member-grants-access-to-external-users'',
    ''autoapprovers-bypass-administrative-route-approval'',
    ''tagowners-grants-tag-privileges-too-broadly'',
    ''autogroup-danger-all-grants-access-to-everyone'',
    ''no-groups-defined-in-acl-policy'',
    ''using-legacy-acls-instead-of-grants'',
    ''taildrop-file-sharing-configuration'',
    ''reusable-auth-keys-exist'',
    ''auth-keys-with-long-expiry-period'',
    ''pre-authorized-auth-keys-bypass-device-approval'',
    ''non-ephemeral-keys-may-be-used-for-ci-cd'',
    ''tagged-devices-with-key-expiry-disabled'',
    ''user-devices-tagged'',
    ''outdated-tailscale-clients'',
    ''stale-devices-not-seen-recently'',
    ''unauthorized-devices-pending-approval'',
    ''external-devices-in-tailnet'',
    ''potentially-sensitive-machine-names'',
    ''devices-with-long-key-expiry-periods'',
    ''device-approval-configuration'',
    ''tailnet-lock-not-enabled'',
    ''unique-users-in-tailnet'',
    ''nodes-awaiting-tailnet-lock-signature'',
    ''device-posture-configuration'',
    ''funnel-exposes-services-to-public-internet'',
    ''exit-node-access-configuration'',
    ''subnet-routes-expose-trust-boundary'',
    ''https-certificates-publish-names-to-ct-logs'',
    ''exit-nodes-can-see-all-internet-traffic'',
    ''tailscale-serve-exposes-services-on-tailnet'',
    ''app-connectors-provide-saas-access'',
    ''ssh-session-recording-not-enforced'',
    ''high-risk-ssh-access-without-check-mode'',
    ''session-recorder-ui-may-be-exposed'',
    ''tailscale-ssh-configuration'',
    ''network-flow-logs-configuration'',
    ''log-streaming-for-long-term-retention'',
    ''audit-log-limitations'',
    ''failed-login-monitoring-via-idp'',
    ''webhook-secrets-never-expire'',
    ''oauth-clients-persist-after-user-removal'',
    ''scim-api-keys-never-expire'',
    ''passkey-authenticated-backup-admin'',
    ''mfa-enforcement-in-identity-provider'',
    ''dns-rebinding-attack-protection'',
    ''security-contact-email-configuration'',
    ''webhooks-for-critical-events'',
    ''review-user-roles-and-ownership'',
    ''magicdns-configuration'']"



text \<open>Equality of two byte strings up to the case of the ASCII letters.\<close>

definition eq_fold :: "string \<Rightarrow> string \<Rightarrow> bool" where
  "eq_fold a b = (map lower_byte a = map lower_byte b)"

text \<open>
  Resolve in the words of the specification: the ID of the first entry whose ID is the
  name up to case, else the ID of the first entry whose slug is the name up to case, else
  not found. The two notions of "up to case" are parameters.
\<close>

definition Resolve_spec ::
  "(string \<Rightarrow> string \<Rightarrow> bool) \<Rightarrow> (string \<Rightarrow> string \<Rightarrow> bool) \<Rightarrow> CheckInfo list
     \<Rightarrow> string \<Rightarrow> string option" where
  "Resolve_spec same_id same_slug cs name =
     (case find (\<lambda>c. same_id name (ID c)) cs of
        Some c \<Rightarrow> Some (ID c)
      | None \<Rightarrow>
          (case find (\<lambda>c. same_slug name (Slug c)) cs of
             Some c \<Rightarrow> Some (ID c)
           | None \<Rightarrow> None))"

text \<open>
  The names ResolveAll works on: every input name trimmed, the ones that are empty
  after trimming left out.
\<close>

definition trimmed_names :: "(string \<Rightarrow> string) \<Rightarrow> string list \<Rightarrow> string list" where
  "trimmed_names T names = filter (\<lambda>n. n \<noteq> []) (map (TrimSpace T) names)"

definition unresolved ::
  "(string \<Rightarrow> string) \<Rightarrow> (string \<Rightarrow> string) \<Rightarrow> (string \<Rightarrow> string) \<Rightarrow> CheckRegistry
     \<Rightarrow> string list \<Rightarrow> string list" where
  "unresolved U L T r names =
     filter (\<lambda>n. Resolve U L r n = None) (trimmed_names T names)"

section \<open>The orchestrator\<close>

text \<open>
  Modelled from the spec: the AuditReport struct (timestamp, tailnet, suggestions,
  summary), whose declaration is not among the sources. The timestamp is a number.
\<close>

record AuditReport =
  Timestamp :: int
  Tailnet :: string
  Suggestions :: "Suggestion list"
  Summary :: Summary

text \<open>strings.Contains.\<close>

definition Contains :: "string \<Rightarrow> string \<Rightarrow> bool" where
  "Contains s substr = sublist substr s"

text \<open>isAuthError; an error is its message (err.Error()), and \<open>None\<close> is the nil error.\<close>

definition isAuthError :: "string option \<Rightarrow> bool" where
  "isAuthError err =
     (case err of
        None \<Rightarrow> False
      | Some errStr \<Rightarrow>
          Contains errStr ''401''
          \<or> Contains errStr ''API token invalid''
          \<or> Contains errStr ''Unauthorized''
          \<or> Contains errStr ''403''
          \<or> Contains errStr ''Forbidden'')"

text \<open>
  Everything Run obtains from outside itself, as one record: the clock, the client, the
  two parsing libraries and the seven category auditors. Each is called at most once in
  a run, so each is the outcome of that one call: \<open>Inl\<close> the message of the error
  returned, \<open>Inr\<close> the value. The type ACLPolicy is not among the sources; it is the
  type parameter \<open>'p\<close>, and its zero value is a parameter of Run. json.Unmarshal
  writes into the policy variable it is given and returns an error or nil, so its
  outcome is the policy left in the variable together with the optional error.
\<close>

record 'p world =
  time_Now :: int
  client_Tailnet :: string
  GetACLHuJSON :: "string + string"
  hujson_Standardize :: "string \<Rightarrow> string + string"
  json_Unmarshal :: "string \<Rightarrow> 'p \<Rightarrow> 'p \<times> string option"
  ACLAuditor_Audit :: "string + Suggestion list"
  AuthAuditor_Audit :: "string + Suggestion list"
  DeviceAuditor_Audit :: "string + Suggestion list"
  NetworkAuditor_Audit :: "'p \<Rightarrow> string + Suggestion list"
  SSHAuditor_Audit :: "'p \<Rightarrow> string + Suggestion list"
  LoggingAuditor_Audit :: "string + Suggestion list"
  DNSAuditor_Audit :: "string + Suggestion list"

text \<open>
  The calls Run makes to its collaborators and to CalculateSummary, recorded in the
  order they happen; the two audits that take the policy record the policy they got.
\<close>

datatype 'p event =
    FetchPolicy
  | AuditACL | AuditAuth | AuditDevice | AuditNetwork 'p | AuditSSH 'p
  | AuditLogging | AuditDNS
  | ComputeSummary

text \<open>
  A Suggestion literal of Run: the fields it sets, the others at their zero value.
\<close>

definition finding ::
  "string \<Rightarrow> string \<Rightarrow> Severity \<Rightarrow> Category \<Rightarrow> string \<Rightarrow> string \<Rightarrow> bool \<Rightarrow> Suggestion" where
  "finding i t sev cat descr rem p =
     \<lparr>ID_f = i, Title_f = t, Severity = sev, Category_f = cat, Description = descr,
      Remediation = rem, Details = [], Pass = p, Fix = None\<rparr>"

definition append_findings :: "Suggestion list \<Rightarrow> AuditReport \<Rightarrow> AuditReport" where
  "append_findings xs report = report\<lparr>Suggestions := Suggestions report @ xs\<rparr>"

text \<open>The error Run returns when it aborts.\<close>

definition authentication_failed :: "string \<Rightarrow> string" where
  "authentication_failed err =
     ''authentication failed: '' @ err @ [CHR 0x0A, CHR 0x0A]
     @ ''Please check your TSKEY environment variable contains a valid API key.'' @ [CHR 0x0A]
     @ ''Generate a new key at: https://login.tailscale.com/admin/settings/keys''"

text \<open>
  The seven blocks of Run after the policy stage, each on the report and the trace so
  far, then the summary.
\<close>

definition run_acl :: "'p world \<Rightarrow> AuditReport \<times> 'p event list \<Rightarrow> AuditReport \<times> 'p event list" where
  "run_acl w = (\<lambda>(report, tr).
     (case ACLAuditor_Audit w of
        Inl err \<Rightarrow>
          append_findings
            [finding ''ACL-ERR'' ''ACL audit error'' Medium AccessControl
               (''Error during ACL audit: '' @ err) [] False] report
      | Inr aclFindings \<Rightarrow> append_findings aclFindings report,
      tr @ [AuditACL]))"

definition run_auth :: "'p world \<Rightarrow> AuditReport \<times> 'p event list \<Rightarrow> AuditReport \<times> 'p event list" where
  "run_auth w = (\<lambda>(report, tr).
     (case AuthAuditor_Audit w of
        Inl err \<Rightarrow>
          append_findings
            [finding ''AUTH-ERR'' ''Auth audit error'' Medium Authentication
               (''Error during auth key audit: '' @ err) [] False] report
      | Inr authFindings \<Rightarrow> append_findings authFindings report,
      tr @ [AuditAuth]))"

definition run_device :: "'p world \<Rightarrow> AuditReport \<times> 'p event list \<Rightarrow> AuditReport \<times> 'p event list" where
  "run_device w = (\<lambda>(report, tr).
     (case DeviceAuditor_Audit w of
        Inl err \<Rightarrow>
          append_findings
            [finding ''DEV-ERR'' ''Device audit error'' Medium DeviceSecurity
               (''Error during device audit: '' @ err) [] False] report
      | Inr deviceFindings \<Rightarrow> append_findings deviceFindings report,
      tr @ [AuditDevice]))"

definition run_network ::
  "'p world \<Rightarrow> 'p \<Rightarrow> AuditReport \<times> 'p event list \<Rightarrow> AuditReport \<times> 'p event list" where
  "run_network w policy = (\<lambda>(report, tr).
     (case NetworkAuditor_Audit w policy of
        Inl err \<Rightarrow>
          append_findings
            [finding ''NET-ERR'' ''Network audit error'' Medium NetworkExposure
               (''Error during network audit: '' @ err) [] False] report
      | Inr networkFindings \<Rightarrow> append_findings networkFindings report,
      tr @ [AuditNetwork policy]))"

definition run_ssh ::
  "'p world \<Rightarrow> 'p \<Rightarrow> AuditReport \<times> 'p event list \<Rightarrow> AuditReport \<times> 'p event list" where
  "run_ssh w policy = (\<lambda>(report, tr).
     (case SSHAuditor_Audit w policy of
        Inl err \<Rightarrow>
          append_findings
            [finding ''SSH-ERR'' ''SSH audit error'' Medium SSHSecurity
               (''Error during SSH audit: '' @ err) [] False] report
      | Inr sshFindings \<Rightarrow> append_findings sshFindings report,
      tr @ [AuditSSH policy]))"

definition run_logging :: "'p world \<Rightarrow> AuditReport \<times> 'p event list \<Rightarrow> AuditReport \<times> 'p event list" where
  "run_logging w = (\<lambda>(report, tr).
     (case LoggingAuditor_Audit w of
        Inl err \<Rightarrow>
          append_findings
            [finding ''LOG-ERR'' ''Logging audit error'' Medium LoggingAdmin
               (''Error during logging audit: '' @ err) [] False] report
      | Inr loggingFindings \<Rightarrow> append_findings loggingFindings report,
      tr @ [AuditLogging]))"

definition run_dns :: "'p world \<Rightarrow> AuditReport \<times> 'p event list \<Rightarrow> AuditReport \<times> 'p event list" where
  "run_dns w = (\<lambda>(report, tr).
     (case DNSAuditor_Audit w of
        Inl err \<Rightarrow>
          append_findings
            [finding ''DNS-ERR'' ''DNS audit error'' Medium DNSConfiguration
               (''Error during DNS audit: '' @ err) [] False] report
      | Inr dnsFindings \<Rightarrow> append_findings dnsFindings report,
      tr @ [AuditDNS]))"

definition calculate_summary :: "AuditReport \<times> 'p event list \<Rightarrow> AuditReport \<times> 'p event list" where
  "calculate_summary = (\<lambda>(report, tr).
     (report\<lparr>Summary := CalculateSummary (Suggestions report)\<rparr>, tr @ [ComputeSummary]))"

definition run_audits ::
  "'p world \<Rightarrow> 'p \<Rightarrow> AuditReport \<times> 'p event list \<Rightarrow> AuditReport \<times> 'p event list" where
  "run_audits w policy st =
     calculate_summary
       (run_dns w (run_logging w (run_ssh w policy (run_network w policy
          (run_device w (run_auth w (run_acl w st)))))))"

text \<open>
  The policy stage of Run: the fetch, and on success the two parsing steps. It yields
  the error that aborts the run, or the report so far and the policy variable.
\<close>

definition fetch_policy :: "'p \<Rightarrow> 'p world \<Rightarrow> AuditReport \<Rightarrow> string + (AuditReport \<times> 'p)" where
  "fetch_policy zero w report =
     (let policy = zero
      in case GetACLHuJSON w of
           Inl err \<Rightarrow>
             if isAuthError (Some err) then Inl (authentication_failed err)
             else Inr (append_findings
                         [finding ''SYS-001'' ''Could not retrieve ACL policy'' High AccessControl
                            (''Failed to retrieve ACL policy: '' @ err
                               @ ''. ACL-related checks will be skipped.'')
                            ''Verify API key has sufficient permissions to read ACL policy.''
                            False] report,
                       policy)
         | Inr aclHuJSON \<Rightarrow>
             (case hujson_Standardize w aclHuJSON of
                Inl err \<Rightarrow>
                  Inr (append_findings
                         [finding ''SYS-002'' ''ACL policy parsing warning'' Low AccessControl
                            (''Could not standardize HuJSON ACL: '' @ err
                               @ ''. Some checks may be incomplete.'')
                            [] True] report,
                       policy)
              | Inr standardizedACL \<Rightarrow>
                  (case json_Unmarshal w standardizedACL policy of
                     (policy', Some err) \<Rightarrow>
                       Inr (append_findings
                              [finding ''SYS-002'' ''ACL policy parsing warning'' Low AccessControl
                                 (''ACL policy could not be fully parsed: '' @ err
                                    @ ''. Some checks may be incomplete.'')
                                 [] True] report,
                            policy')
                   | (policy', None) \<Rightarrow> Inr (report, policy'))))"

text \<open>
  Run. The result is the pair Go returns, as a sum: \<open>Inl\<close> the error (and no report),
  \<open>Inr\<close> the report (and a nil error); beside it the trace of the calls made.
\<close>

definition Run :: "'p \<Rightarrow> 'p world \<Rightarrow> (string + AuditReport) \<times> 'p event list" where
  "Run zero w =
     (let report = \<lparr>Timestamp = time_Now w, Tailnet = client_Tailnet w,
                    Suggestions = [], Summary = empty_summary\<rparr>
      in case fetch_policy zero w report of
           Inl err \<Rightarrow> (Inl err, [FetchPolicy])
         | Inr (report', policy) \<Rightarrow>
             (case run_audits w policy (report', [FetchPolicy]) of
                (final, tr) \<Rightarrow> (Inr final, tr)))"

section \<open>Notions the properties of the orchestrator are stated with\<close>

text \<open>The run aborts: the fetch of the policy document fails with an error of the
  authentication class.\<close>

definition aborts :: "'p world \<Rightarrow> bool" where
  "aborts w = (case GetACLHuJSON w of Inl err \<Rightarrow> isAuthError (Some err) | Inr _ \<Rightarrow> False)"

text \<open>What a category adds to the report: its findings, or one placeholder made from
  the error.\<close>

definition contribution :: "(string \<Rightarrow> Suggestion) \<Rightarrow> string + Suggestion list \<Rightarrow> Suggestion list" where
  "contribution placeholder outcome =
     (case outcome of Inl err \<Rightarrow> [placeholder err] | Inr findings \<Rightarrow> findings)"

definition error_finding :: "string \<Rightarrow> string \<Rightarrow> Category \<Rightarrow> string \<Rightarrow> string \<Rightarrow> Suggestion" where
  "error_finding i t cat what err =
     \<lparr>ID_f = i, Title_f = t, Severity = Medium, Category_f = cat, Description = what @ err,
      Remediation = [], Details = [], Pass = False, Fix = None\<rparr>"

definition acl_findings :: "'p world \<Rightarrow> Suggestion list" where
  "acl_findings w =
     contribution (error_finding ''ACL-ERR'' ''ACL audit error'' AccessControl
                     ''Error during ACL audit: '') (ACLAuditor_Audit w)"

definition auth_findings :: "'p world \<Rightarrow> Suggestion list" where
  "auth_findings w =
     contribution (error_finding ''AUTH-ERR'' ''Auth audit error'' Authentication
                     ''Error during auth key audit: '') (AuthAuditor_Audit w)"

definition device_findings :: "'p world \<Rightarrow> Suggestion list" where
  "device_findings w =
     contribution (error_finding ''DEV-ERR'' ''Device audit error'' DeviceSecurity
                     ''Error during device audit: '') (DeviceAuditor_Audit w)"

definition network_findings :: "'p world \<Rightarrow> 'p \<Rightarrow> Suggestion list" where
  "network_findings w policy =
     contribution (error_finding ''NET-ERR'' ''Network audit error'' NetworkExposure
                     ''Error during network audit: '') (NetworkAuditor_Audit w policy)"

definition ssh_findings :: "'p world \<Rightarrow> 'p \<Rightarrow> Suggestion list" where
  "ssh_findings w policy =
     contribution (error_finding ''SSH-ERR'' ''SSH audit error'' SSHSecurity
                     ''Error during SSH audit: '') (SSHAuditor_Audit w policy)"

definition logging_findings :: "'p world \<Rightarrow> Suggestion list" where
  "logging_findings w =
     contribution (error_finding ''LOG-ERR'' ''Logging audit error'' LoggingAdmin
                     ''Error during logging audit: '') (LoggingAuditor_Audit w)"

definition dns_findings :: "'p world \<Rightarrow> Suggestion list" where
  "dns_findings w =
     contribution (error_finding ''DNS-ERR'' ''DNS audit error'' DNSConfiguration
                     ''Error during DNS audit: '') (DNSAuditor_Audit w)"

text \<open>What the policy stage adds to the report, and the policy it leaves for the audits.\<close>

definition policy_findings :: "'p \<Rightarrow> 'p world \<Rightarrow> Suggestion list" where
  "policy_findings zero w =
     (case GetACLHuJSON w of
        Inl err \<Rightarrow>
          [finding ''SYS-001'' ''Could not retrieve ACL policy'' High AccessControl
             (''Failed to retrieve ACL policy: '' @ err @ ''. ACL-related checks will be skipped.'')
             ''Verify API key has sufficient permissions to read ACL policy.'' False]
      | Inr acl \<Rightarrow>
          (case hujson_Standardize w acl of
             Inl err \<Rightarrow>
               [finding ''SYS-002'' ''ACL policy parsing warning'' Low AccessControl
                  (''Could not standardize HuJSON ACL: '' @ err @ ''. Some checks may be incomplete.'')
                  [] True]
           | Inr std \<Rightarrow>
               (case snd (json_Unmarshal w std zero) of
                  Some err \<Rightarrow>
                    [finding ''SYS-002'' ''ACL policy parsing warning'' Low AccessControl
                       (''ACL policy could not be fully parsed: '' @ err
                          @ ''. Some checks may be incomplete.'')
                       [] True]
                | None \<Rightarrow> [])))"

definition policy_value :: "'p \<Rightarrow> 'p world \<Rightarrow> 'p" where
  "policy_value zero w =
     (case GetACLHuJSON w of
        Inl err \<Rightarrow> zero
      | Inr acl \<Rightarrow>
          (case hujson_Standardize w acl of
             Inl err \<Rightarrow> zero
           | Inr std \<Rightarrow> fst (json_Unmarshal w std zero)))"

text \<open>The seven categories in the order of the specification.\<close>

definition category_order :: "'p \<Rightarrow> 'p event list" where
  "category_order policy =
     [AuditACL, AuditAuth, AuditDevice, AuditNetwork policy, AuditSSH policy,
      AuditLogging, AuditDNS]"

section \<open>Some concrete runs\<close>

text \<open>
  Worlds for concrete runs. A policy is represented by the names of the sections of
  the document that were decoded into it; the zero value is the empty list. In the base
  world every call succeeds and two auditors report a finding each.
\<close>

definition quoted :: "string \<Rightarrow> string" where
  "quoted s = CHR 0x22 # s @ [CHR 0x22]"

definition policy_document :: string where
  "policy_document =
     ''{'' @ quoted ''groups'' @ '': {'' @ quoted ''group:dev'' @ '': []}, ''
       @ quoted ''acls'' @ '': 5}''"

definition base_world :: "string list world" where
  "base_world =
     \<lparr>time_Now = 1765967400,
      client_Tailnet = ''example.com'',
      GetACLHuJSON = Inr policy_document,
      hujson_Standardize = (\<lambda>acl. Inr acl),
      json_Unmarshal = (\<lambda>data policy. ([''groups'', ''acls''], None)),
      ACLAuditor_Audit =
        Inr [finding ''ACL-003'' ''No ACL tests defined'' Low AccessControl [] [] False],
      AuthAuditor_Audit = Inr [],
      DeviceAuditor_Audit =
        Inr [finding ''DEV-010'' ''Tailnet Lock not enabled'' High DeviceSecurity [] [] False],
      NetworkAuditor_Audit = (\<lambda>policy. Inr []),
      SSHAuditor_Audit = (\<lambda>policy. Inr []),
      LoggingAuditor_Audit = Inr [],
      DNSAuditor_Audit = Inr []\<rparr>"

definition forbidden_world :: "string list world" where
  "forbidden_world = base_world\<lparr>GetACLHuJSON := Inl ''unexpected status code: 403 Forbidden''\<rparr>"

definition unauthorized_world :: "string list world" where
  "unauthorized_world = base_world\<lparr>GetACLHuJSON := Inl ''API token invalid (401)''\<rparr>"

definition fetch_timeout_world :: "string list world" where
  "fetch_timeout_world = base_world\<lparr>GetACLHuJSON := Inl ''context deadline exceeded''\<rparr>"

definition device_down_world :: "string list world" where
  "device_down_world = base_world\<lparr>DeviceAuditor_Audit := Inl ''context deadline exceeded''\<rparr>"

definition acl_down_world :: "string list world" where
  "acl_down_world = base_world\<lparr>ACLAuditor_Audit := Inl ''context deadline exceeded''\<rparr>"

definition partial_parse_world :: "string list world" where
  "partial_parse_world =
     base_world\<lparr>json_Unmarshal := (\<lambda>data policy.
       ([''groups''],
        Some ''json: cannot unmarshal number into Go struct field ACLPolicy.acls''))\<rparr>"

definition bad_hujson_world :: "string list world" where
  "bad_hujson_world =
     base_world\<lparr>hujson_Standardize := (\<lambda>acl. Inl ''hujson: line 1, column 2: invalid character'')\<rparr>"

section \<open>Summary aggregation\<close>

lemma count_suggestion_total:
  "total_count (count_suggestion s S) = total_count S + 1"
  by (simp add: count_suggestion_def Let_def split: Severity.split)

lemma count_suggestion_passed:
  "passed (count_suggestion s S) = passed S + (if Pass s then 1 else 0)"
  by (simp add: count_suggestion_def Let_def split: Severity.split)

lemma count_suggestion_severity_sum:
  "severity_sum (count_suggestion s S) = severity_sum S + (if Pass s then 0 else 1)"
  by (simp add: count_suggestion_def severity_sum_def Let_def split: Severity.split)

lemma fold_count_total:
  "total_count (fold count_suggestion xs S) = total_count S + length xs"
  by (induction xs arbitrary: S) (simp_all add: count_suggestion_total)

lemma fold_count_passed:
  "passed (fold count_suggestion xs S) = passed S + length (filter Pass xs)"
  by (induction xs arbitrary: S) (simp_all add: count_suggestion_passed)

lemma fold_count_severity_sum:
  "severity_sum (fold count_suggestion xs S) = severity_sum S + length (failing xs)"
  by (induction xs arbitrary: S) (simp_all add: count_suggestion_severity_sum failing_def)

lemma severity_sum_empty: "severity_sum empty_summary = 0"
  by (simp add: severity_sum_def empty_summary_def)

lemma length_passing_failing:
  "length (filter Pass xs) = length xs - length (failing xs)"
  using sum_length_filter_compl [of Pass xs] by (simp add: failing_def)

lemma CalculateSummary_snoc:
  "CalculateSummary (xs @ [s]) = count_suggestion s (CalculateSummary xs)"
  by (simp add: CalculateSummary_def)

text \<open>
  C8. For a report with N suggestions of which K have Pass=false, the recomputed summary
  has severity counts that sum to K, passed = N - K and total = N, hence total = passed
  + the sum of the severity counts. Appending one more failing Critical suggestion (any
  suggestion c with Pass set to false and Severity set to Critical) and recomputing gives
  the old summary with critical and total each increased by exactly 1, and no other field
  changed.
\<close>

theorem CalculateSummary_counts:
  "critical (CalculateSummary xs) + high (CalculateSummary xs) + medium (CalculateSummary xs)
     + low (CalculateSummary xs) + info (CalculateSummary xs) = length (failing xs)
   \<and> passed (CalculateSummary xs) = length xs - length (failing xs)
   \<and> total_count (CalculateSummary xs) = length xs
   \<and> total_count (CalculateSummary xs)
       = passed (CalculateSummary xs)
         + (critical (CalculateSummary xs) + high (CalculateSummary xs)
            + medium (CalculateSummary xs) + low (CalculateSummary xs)
            + info (CalculateSummary xs))
   \<and> CalculateSummary (xs @ [c\<lparr>Pass := False, Severity := Critical\<rparr>])
       = (CalculateSummary xs)
           \<lparr>critical := critical (CalculateSummary xs) + 1,
            total_count := total_count (CalculateSummary xs) + 1\<rparr>"
proof -
  let ?S = "CalculateSummary xs"
  have sev: "severity_sum ?S = length (failing xs)"
    by (simp add: CalculateSummary_def fold_count_severity_sum severity_sum_empty)
  have pas: "passed ?S = length xs - length (failing xs)"
    by (simp add: CalculateSummary_def fold_count_passed empty_summary_def
        length_passing_failing)
  have tot: "total_count ?S = length xs"
    by (simp add: CalculateSummary_def fold_count_total empty_summary_def)
  have le: "length (failing xs) \<le> length xs"
    by (simp add: failing_def)
  have bal: "total_count ?S = passed ?S + severity_sum ?S"
    using sev pas tot le by simp
  have app: "CalculateSummary (xs @ [c\<lparr>Pass := False, Severity := Critical\<rparr>])
       = ?S\<lparr>critical := critical ?S + 1, total_count := total_count ?S + 1\<rparr>"
    by (simp add: CalculateSummary_snoc count_suggestion_def Let_def)
  from sev pas tot bal app show ?thesis
    unfolding severity_sum_def by blast
qed

section \<open>Construction of the registry\<close>

lemma map_of_rev_distinct:
  "distinct (map fst xs) \<Longrightarrow> map_of (rev xs) = map_of xs"
  by (subst map_of_inject_set) (simp_all add: rev_map [symmetric])

lemma map_of_key_find:
  "map_of (map (\<lambda>c. (f c, c)) cs) k = find (\<lambda>c. f c = k) cs"
  by (induction cs) auto

lemma register_check_step:
  assumes "n < length cs"
  shows "register_check U L T n
           \<lparr>checks = map (with_slug L T) (take n cs) @ drop n cs, byID = bi, bySlug = bs\<rparr>
         = \<lparr>checks = map (with_slug L T) (take (Suc n) cs) @ drop (Suc n) cs,
            byID = bi(ToUpper U (ID (cs ! n)) \<mapsto> with_slug L T (cs ! n)),
            bySlug = bs(slugify L T (Title (cs ! n)) \<mapsto> with_slug L T (cs ! n))\<rparr>"
proof -
  have nth: "(map (with_slug L T) (take n cs) @ drop n cs) ! n = cs ! n"
    using assms by (simp add: nth_append)
  have upd: "(map (with_slug L T) (take n cs) @ drop n cs)[n := with_slug L T (cs ! n)]
             = map (with_slug L T) (take (Suc n) cs) @ drop (Suc n) cs"
    using assms
    by (simp add: list_update_append take_Suc_conv_app_nth Cons_nth_drop_Suc [symmetric])
  have ws: "(cs ! n)\<lparr>Slug := slugify L T (Title (cs ! n))\<rparr> = with_slug L T (cs ! n)"
    by (simp add: with_slug_def)
  have id_ws: "ID (with_slug L T (cs ! n)) = ID (cs ! n)"
    and slug_ws: "Slug (with_slug L T (cs ! n)) = slugify L T (Title (cs ! n))"
    by (simp_all add: with_slug_def)
  show ?thesis
    by (simp add: register_check_def Let_def nth ws upd id_ws slug_ws)
qed

lemma register_loop:
  "n \<le> length cs \<Longrightarrow>
   fold (register_check U L T) [0..<n] \<lparr>checks = cs, byID = bi, bySlug = bs\<rparr>
   = \<lparr>checks = map (with_slug L T) (take n cs) @ drop n cs,
      byID = bi ++ map_of (rev (map (\<lambda>c. (ToUpper U (ID c), c))
                                  (map (with_slug L T) (take n cs)))),
      bySlug = bs ++ map_of (rev (map (\<lambda>c. (Slug c, c))
                                    (map (with_slug L T) (take n cs))))\<rparr>"
proof (induction n)
  case 0
  then show ?case by simp
next
  case (Suc n)
  then have lt: "n < length cs" by simp
  have ids: "ID (with_slug L T (cs ! n)) = ID (cs ! n)"
    and sl: "Slug (with_slug L T (cs ! n)) = slugify L T (Title (cs ! n))"
    by (simp_all add: with_slug_def)
  have "fold (register_check U L T) [0..<Suc n] \<lparr>checks = cs, byID = bi, bySlug = bs\<rparr>
        = register_check U L T n
            (fold (register_check U L T) [0..<n] \<lparr>checks = cs, byID = bi, bySlug = bs\<rparr>)"
    by simp
  also have "\<dots> = register_check U L T n
      \<lparr>checks = map (with_slug L T) (take n cs) @ drop n cs,
       byID = bi ++ map_of (rev (map (\<lambda>c. (ToUpper U (ID c), c))
                                  (map (with_slug L T) (take n cs)))),
       bySlug = bs ++ map_of (rev (map (\<lambda>c. (Slug c, c))
                                    (map (with_slug L T) (take n cs))))\<rparr>"
    using Suc.IH lt by simp
  also have "\<dots> = \<lparr>checks = map (with_slug L T) (take (Suc n) cs) @ drop (Suc n) cs,
      byID = bi ++ map_of (rev (map (\<lambda>c. (ToUpper U (ID c), c))
                                  (map (with_slug L T) (take (Suc n) cs)))),
      bySlug = bs ++ map_of (rev (map (\<lambda>c. (Slug c, c))
                                    (map (with_slug L T) (take (Suc n) cs))))\<rparr>"
    unfolding register_check_step [OF lt] take_Suc_conv_app_nth [OF lt]
    by (simp add: ids sl del: fun_upd_apply)
  finally show ?case .
qed

lemma NewCheckRegistry_eq:
  "NewCheckRegistry U L T
   = \<lparr>checks = map (with_slug L T) catalog,
      byID = map_of (rev (map (\<lambda>c. (ToUpper U (ID c), c)) (map (with_slug L T) catalog))),
      bySlug = map_of (rev (map (\<lambda>c. (Slug c, c)) (map (with_slug L T) catalog)))\<rparr>"
  unfolding NewCheckRegistry_def
  by (subst register_loop) simp_all

lemma catalog_ids_eq: "map ID catalog = catalog_ids"
  by (simp add: catalog_def catalog_ids_def entry_def)

lemma catalog_slugs_eq: "map (\<lambda>c. slugify L T (Title c)) catalog = catalog_slugs"
  by code_simp


lemma catalog_ids_ascii: "list_all isASCII catalog_ids"
  by code_simp

lemma catalog_slugs_ascii: "list_all isASCII catalog_slugs"
  by code_simp

lemma catalog_ids_upper: "map (map upper_byte) catalog_ids = catalog_ids"
  by code_simp

lemma catalog_slugs_lower: "map (map lower_byte) catalog_slugs = catalog_slugs"
  by code_simp

lemma catalog_ids_distinct: "distinct catalog_ids"
  unfolding catalog_ids_def by simp

lemma catalog_slugs_distinct: "distinct catalog_slugs"
  unfolding catalog_slugs_def by simp

lemma ids_not_slugs: "list_all (\<lambda>i. map lower_byte i \<notin> set catalog_slugs) catalog_ids"
  by code_simp

section \<open>Lookup in the default registry\<close>

lemma checks_DefaultRegistry: "checks (DefaultRegistry U L T) = map (with_slug L T) catalog"
  by (simp add: DefaultRegistry_def NewCheckRegistry_eq)

lemma ids_DefaultRegistry: "map ID (checks (DefaultRegistry U L T)) = catalog_ids"
  by (simp add: checks_DefaultRegistry o_def with_slug_def catalog_ids_eq)

lemma slugs_DefaultRegistry: "map Slug (checks (DefaultRegistry U L T)) = catalog_slugs"
  by (simp add: checks_DefaultRegistry o_def with_slug_def catalog_slugs_eq)


lemma ID_in_catalog_ids: "c \<in> set (checks (DefaultRegistry U L T)) \<Longrightarrow> ID c \<in> set catalog_ids"
  using ids_DefaultRegistry [of U L T] by (metis image_eqI set_map)

lemma Slug_in_catalog_slugs:
  "c \<in> set (checks (DefaultRegistry U L T)) \<Longrightarrow> Slug c \<in> set catalog_slugs"
  using slugs_DefaultRegistry [of U L T] by (metis image_eqI set_map)

lemma map_fixed_elem: "map f xs = xs \<Longrightarrow> x \<in> set xs \<Longrightarrow> f x = x"
  by (induction xs) auto

lemma ToUpper_catalog_id: "i \<in> set catalog_ids \<Longrightarrow> ToUpper U i = i"
proof -
  assume a: "i \<in> set catalog_ids"
  then have "isASCII i" using catalog_ids_ascii by (simp add: list_all_iff)
  moreover have "map upper_byte i = i"
    using a catalog_ids_upper by (rule map_fixed_elem [rotated])
  ultimately show ?thesis by (simp add: ToUpper_def)
qed

lemma ToLower_catalog_slug: "s \<in> set catalog_slugs \<Longrightarrow> ToLower L s = s"
proof -
  assume a: "s \<in> set catalog_slugs"
  then have "isASCII s" using catalog_slugs_ascii by (simp add: list_all_iff)
  moreover have "map lower_byte s = s"
    using a catalog_slugs_lower by (rule map_fixed_elem [rotated])
  ultimately show ?thesis by (simp add: ToLower_def)
qed

lemma byID_DefaultRegistry:
  "byID (DefaultRegistry U L T) k = find (\<lambda>c. k = ID c) (checks (DefaultRegistry U L T))"
proof -
  let ?cs = "map (with_slug L T) catalog"
  have cs: "checks (DefaultRegistry U L T) = ?cs" by (rule checks_DefaultRegistry)
  have keys: "map (\<lambda>c. ToUpper U (ID c)) ?cs = catalog_ids"
  proof -
    have "map (\<lambda>c. ToUpper U (ID c)) ?cs = map (ToUpper U) (map ID ?cs)" by (simp add: o_def)
    also have "map ID ?cs = catalog_ids" using ids_DefaultRegistry [of U L T] cs by simp
    also have "map (ToUpper U) catalog_ids = catalog_ids"
      by (rule map_idI) (rule ToUpper_catalog_id)
    finally show ?thesis .
  qed
  have "byID (DefaultRegistry U L T) = map_of (rev (map (\<lambda>c. (ToUpper U (ID c), c)) ?cs))"
    by (simp add: DefaultRegistry_def NewCheckRegistry_eq)
  also have "\<dots> = map_of (map (\<lambda>c. (ToUpper U (ID c), c)) ?cs)"
  proof (rule map_of_rev_distinct)
    have "map fst (map (\<lambda>c. (ToUpper U (ID c), c)) ?cs) = map (\<lambda>c. ToUpper U (ID c)) ?cs"
      by (simp only: map_map o_def fst_conv)
    then show "distinct (map fst (map (\<lambda>c. (ToUpper U (ID c), c)) ?cs))"
      using keys catalog_ids_distinct by (simp only:)
  qed
  finally have "byID (DefaultRegistry U L T) k = find (\<lambda>c. ToUpper U (ID c) = k) ?cs"
    by (simp only: map_of_key_find)
  also have "\<dots> = find (\<lambda>c. k = ID c) ?cs"
  proof (rule find_cong [OF refl])
    fix c assume "c \<in> set ?cs"
    then have "ID c \<in> set catalog_ids" using ID_in_catalog_ids [of c U L T] cs by simp
    then show "(ToUpper U (ID c) = k) = (k = ID c)" by (auto simp: ToUpper_catalog_id)
  qed
  finally show ?thesis by (simp add: cs)
qed

lemma bySlug_DefaultRegistry:
  "bySlug (DefaultRegistry U L T) k = find (\<lambda>c. k = Slug c) (checks (DefaultRegistry U L T))"
proof -
  let ?cs = "map (with_slug L T) catalog"
  have cs: "checks (DefaultRegistry U L T) = ?cs" by (rule checks_DefaultRegistry)
  have keys: "map Slug ?cs = catalog_slugs" using slugs_DefaultRegistry [of U L T] cs by simp
  have "bySlug (DefaultRegistry U L T) = map_of (rev (map (\<lambda>c. (Slug c, c)) ?cs))"
    by (simp add: DefaultRegistry_def NewCheckRegistry_eq)
  also have "\<dots> = map_of (map (\<lambda>c. (Slug c, c)) ?cs)"
  proof (rule map_of_rev_distinct)
    have "map fst (map (\<lambda>c. (Slug c, c)) ?cs) = map Slug ?cs"
      by (simp only: map_map o_def fst_conv)
    then show "distinct (map fst (map (\<lambda>c. (Slug c, c)) ?cs))"
      using keys catalog_slugs_distinct by (simp only:)
  qed
  finally have "bySlug (DefaultRegistry U L T) k = find (\<lambda>c. Slug c = k) ?cs"
    by (simp only: map_of_key_find)
  also have "\<dots> = find (\<lambda>c. k = Slug c) ?cs"
    by (rule find_cong [OF refl]) auto
  finally show ?thesis by (simp add: cs)
qed

lemma lower_upper_byte: "lower_byte (upper_byte c) = lower_byte c"
proof -
  have "(of_char c :: nat) < 256" by simp
  then show ?thesis
    by (cases "97 \<le> (of_char c :: nat) \<and> (of_char c :: nat) \<le> 122")
      (auto simp: lower_byte_def upper_byte_def Let_def)
qed

lemma upper_lower_byte: "upper_byte (lower_byte c) = upper_byte c"
proof -
  have "(of_char c :: nat) < 256" by simp
  then show ?thesis
    by (cases "65 \<le> (of_char c :: nat) \<and> (of_char c :: nat) \<le> 90")
      (auto simp: lower_byte_def upper_byte_def Let_def)
qed

lemma map_upper_eq_iff: "(map upper_byte a = map upper_byte b) = eq_fold a b"
proof
  assume "map upper_byte a = map upper_byte b"
  then have "map lower_byte (map upper_byte a) = map lower_byte (map upper_byte b)" by simp
  then show "eq_fold a b" by (simp add: eq_fold_def o_def lower_upper_byte)
next
  assume "eq_fold a b"
  then have "map upper_byte (map lower_byte a) = map upper_byte (map lower_byte b)"
    by (simp add: eq_fold_def)
  then show "map upper_byte a = map upper_byte b" by (simp add: o_def upper_lower_byte)
qed

lemma Resolve_DefaultRegistry:
  "Resolve U L (DefaultRegistry U L T) name =
     (case find (\<lambda>c. ToUpper U name = ID c) (checks (DefaultRegistry U L T)) of
        Some c \<Rightarrow> Some (ID c)
      | None \<Rightarrow>
          (case find (\<lambda>c. ToLower L name = Slug c) (checks (DefaultRegistry U L T)) of
             Some c \<Rightarrow> Some (ID c)
           | None \<Rightarrow> None))"
  unfolding Resolve_def byID_DefaultRegistry bySlug_DefaultRegistry ..

lemma Resolve_go_fold:
  "Resolve U L (DefaultRegistry U L T) name
   = Resolve_spec (\<lambda>a b. ToUpper U a = ToUpper U b) (\<lambda>a b. ToLower L a = ToLower L b)
       (checks (DefaultRegistry U L T)) name"
proof -
  let ?cs = "checks (DefaultRegistry U L T)"
  have i: "find (\<lambda>c. ToUpper U name = ID c) ?cs = find (\<lambda>c. ToUpper U name = ToUpper U (ID c)) ?cs"
    by (rule find_cong [OF refl]) (simp add: ID_in_catalog_ids ToUpper_catalog_id)
  have s: "find (\<lambda>c. ToLower L name = Slug c) ?cs
           = find (\<lambda>c. ToLower L name = ToLower L (Slug c)) ?cs"
    by (rule find_cong [OF refl]) (simp add: Slug_in_catalog_slugs ToLower_catalog_slug)
  show ?thesis
    unfolding Resolve_DefaultRegistry Resolve_spec_def i s ..
qed

lemma Resolve_ascii_fold:
  assumes "isASCII name"
  shows "Resolve U L (DefaultRegistry U L T) name
         = Resolve_spec eq_fold eq_fold (checks (DefaultRegistry U L T)) name"
proof -
  let ?cs = "checks (DefaultRegistry U L T)"
  have i: "find (\<lambda>c. ToUpper U name = ID c) ?cs = find (\<lambda>c. eq_fold name (ID c)) ?cs"
  proof (rule find_cong [OF refl])
    fix c assume "c \<in> set ?cs"
    then have c: "ID c \<in> set catalog_ids" by (rule ID_in_catalog_ids)
    then have "map upper_byte (ID c) = ID c"
      using catalog_ids_upper by (rule map_fixed_elem [rotated])
    then have "(ToUpper U name = ID c) = (map upper_byte name = map upper_byte (ID c))"
      using assms by (simp add: ToUpper_def)
    then show "(ToUpper U name = ID c) = eq_fold name (ID c)"
      by (simp only: map_upper_eq_iff)
  qed
  have s: "find (\<lambda>c. ToLower L name = Slug c) ?cs = find (\<lambda>c. eq_fold name (Slug c)) ?cs"
  proof (rule find_cong [OF refl])
    fix c assume "c \<in> set ?cs"
    then have c: "Slug c \<in> set catalog_slugs" by (rule Slug_in_catalog_slugs)
    then have "map lower_byte (Slug c) = Slug c"
      using catalog_slugs_lower by (rule map_fixed_elem [rotated])
    then show "(ToLower L name = Slug c) = eq_fold name (Slug c)"
      using assms by (simp add: ToLower_def eq_fold_def)
  qed
  show ?thesis
    unfolding Resolve_DefaultRegistry Resolve_spec_def i s ..
qed

lemma Resolve_slug_variant:
  assumes ascii: "isASCII name"
    and c: "c \<in> set (checks (DefaultRegistry U L T))"
    and nm: "eq_fold name (Slug c)"
  shows "Resolve U L (DefaultRegistry U L T) name = Some (ID c)"
proof -
  let ?cs = "checks (DefaultRegistry U L T)"
  have sl: "Slug c \<in> set catalog_slugs" using c by (rule Slug_in_catalog_slugs)
  then have low: "map lower_byte (Slug c) = Slug c"
    using catalog_slugs_lower by (rule map_fixed_elem [rotated])
  have lname: "map lower_byte name = Slug c" using nm low by (simp add: eq_fold_def)
  have no_id: "find (\<lambda>c'. eq_fold name (ID c')) ?cs = None"
  proof (simp only: find_None_iff, rule notI, elim exE conjE)
    fix c' assume c': "c' \<in> set ?cs" and e: "eq_fold name (ID c')"
    from c' have "ID c' \<in> set catalog_ids" by (rule ID_in_catalog_ids)
    then have "map lower_byte (ID c') \<notin> set catalog_slugs"
      using ids_not_slugs by (simp add: list_all_iff)
    moreover from e lname have "map lower_byte (ID c') = Slug c" by (simp add: eq_fold_def)
    ultimately show False using sl by simp
  qed
  have "\<exists>c'. find (\<lambda>c'. eq_fold name (Slug c')) ?cs = Some c'"
    using c nm by (cases "find (\<lambda>c'. eq_fold name (Slug c')) ?cs") (auto simp: find_None_iff)
  then obtain c' where f: "find (\<lambda>c'. eq_fold name (Slug c')) ?cs = Some c'" ..
  then have c': "c' \<in> set ?cs" and e: "eq_fold name (Slug c')"
    by (auto simp: find_Some_iff)
  from c' have "Slug c' \<in> set catalog_slugs" by (rule Slug_in_catalog_slugs)
  then have "map lower_byte (Slug c') = Slug c'"
    using catalog_slugs_lower by (rule map_fixed_elem [rotated])
  with e lname have same: "Slug c' = Slug c" by (simp add: eq_fold_def)
  have "distinct (map Slug ?cs)"
    by (simp only: slugs_DefaultRegistry catalog_slugs_distinct)
  then have "inj_on Slug (set ?cs)" by (simp add: distinct_map)
  with same c c' have "c' = c" by (auto dest: inj_onD)
  with f no_id show ?thesis
    by (simp add: Resolve_ascii_fold [OF ascii] Resolve_spec_def)
qed

lemma Resolve_id_variant:
  assumes ascii: "isASCII name"
    and c: "c \<in> set (checks (DefaultRegistry U L T))"
    and nm: "eq_fold name (ID c)"
  shows "Resolve U L (DefaultRegistry U L T) name = Some (ID c)"
proof -
  let ?cs = "checks (DefaultRegistry U L T)"
  have "\<exists>c'. find (\<lambda>c'. eq_fold name (ID c')) ?cs = Some c'"
    using c nm by (cases "find (\<lambda>c'. eq_fold name (ID c')) ?cs") (auto simp: find_None_iff)
  then obtain c' where f: "find (\<lambda>c'. eq_fold name (ID c')) ?cs = Some c'" ..
  then have c': "c' \<in> set ?cs" and e: "eq_fold name (ID c')"
    by (auto simp: find_Some_iff)
  have up: "\<And>x. x \<in> set ?cs \<Longrightarrow> map upper_byte (ID x) = ID x"
    using catalog_ids_upper by (rule map_fixed_elem) (rule ID_in_catalog_ids)
  from e nm have "eq_fold (ID c') (ID c)" by (simp add: eq_fold_def)
  then have "map upper_byte (ID c') = map upper_byte (ID c)"
    by (simp only: map_upper_eq_iff)
  then have "ID c' = ID c" using up [OF c] up [OF c'] by simp
  with f show ?thesis
    by (simp add: Resolve_ascii_fold [OF ascii] Resolve_spec_def)
qed

lemma Resolve_acl_001: "Resolve U L (DefaultRegistry U L T) ''acl-001'' = Some ''ACL-001''"
proof -
  have a: "isASCII ''acl-001''" by code_simp
  have e: "eq_fold ''acl-001'' ''ACL-001''" by code_simp
  have "''ACL-001'' \<in> set (map ID (checks (DefaultRegistry U L T)))"
    by (simp only: ids_DefaultRegistry) (simp add: catalog_ids_def)
  then obtain c where c: "c \<in> set (checks (DefaultRegistry U L T))" and i: "ID c = ''ACL-001''"
    by auto
  from Resolve_id_variant [OF a c] e i show ?thesis by simp
qed

lemma Resolve_not_found:
  assumes ascii: "isASCII name"
    and no: "\<forall>c \<in> set (checks (DefaultRegistry U L T)).
               \<not> eq_fold name (ID c) \<and> \<not> eq_fold name (Slug c)"
  shows "Resolve U L (DefaultRegistry U L T) name = None"
proof -
  let ?cs = "checks (DefaultRegistry U L T)"
  have "find (\<lambda>c. eq_fold name (ID c)) ?cs = None"
    and "find (\<lambda>c. eq_fold name (Slug c)) ?cs = None"
    using no by (auto simp: find_None_iff)
  then show ?thesis
    by (simp add: Resolve_ascii_fold [OF ascii] Resolve_spec_def)
qed


section \<open>Resolving a list of names\<close>

lemma resolve_loop_char:
  "resolve_loop U L T r names (ids, unknown)
   = (ids @ List.map_filter (Resolve U L r) (trimmed_names T names),
      unknown @ filter (\<lambda>n. Resolve U L r n = None) (trimmed_names T names))"
proof (induction names arbitrary: ids unknown)
  case Nil
  then show ?case by (simp add: trimmed_names_def)
next
  case (Cons n ns)
  show ?case
  proof (cases "TrimSpace T n = []")
    case True
    then show ?thesis using Cons.IH by (simp add: trimmed_names_def)
  next
    case False
    then show ?thesis
      using Cons.IH by (cases "Resolve U L r (TrimSpace T n)") (simp_all add: trimmed_names_def)
  qed
qed

lemma ResolveAll_char:
  "ResolveAll U L T r names
   = (if unresolved U L T r names \<noteq> []
      then Inl (''unknown check(s): '' @ Join (unresolved U L T r names) '', '')
      else Inr (List.map_filter (Resolve U L r) (trimmed_names T names)))"
  by (simp add: ResolveAll_def resolve_loop_char unresolved_def)

lemma sublist_Join: "x \<in> set xs \<Longrightarrow> sublist x (Join xs sep)"
proof (induction xs sep rule: Join.induct)
  case (1 sep)
  then show ?case by simp
next
  case (2 y sep)
  then show ?case by simp
next
  case (3 y z zs sep)
  show ?case
  proof (cases "x = y")
    case True
    then show ?thesis by (simp add: sublist_append_rightI)
  next
    case False
    with 3 have "sublist x (Join (z # zs) sep)" by simp
    then have "sublist x ((y @ sep) @ Join (z # zs) sep)"
      by (simp only: sublist_append) simp
    then show ?thesis by simp
  qed
qed

lemma unresolved_nonempty_iff:
  "(unresolved U L T r names \<noteq> [])
   = (\<exists>n \<in> set names. TrimSpace T n \<noteq> [] \<and> Resolve U L r (TrimSpace T n) = None)"
  by (auto simp: unresolved_def trimmed_names_def filter_empty_conv)

lemma set_unresolved:
  "set (unresolved U L T r names)
   = {TrimSpace T n | n. n \<in> set names \<and> TrimSpace T n \<noteq> []
        \<and> Resolve U L r (TrimSpace T n) = None}"
  by (auto simp: unresolved_def trimmed_names_def)

lemma map_filter_all_Some:
  "filter (\<lambda>x. f x = None) xs = [] \<Longrightarrow> map Some (List.map_filter f xs) = map f xs"
  by (induction xs) (auto split: if_splits)

lemma trimmed_names_skip:
  "trimmed_names T (filter (\<lambda>n. TrimSpace T n \<noteq> []) names) = trimmed_names T names"
  by (induction names) (simp_all add: trimmed_names_def)

section \<open>Resolution of some concrete names\<close>

lemma entry_of_id_slug:
  assumes "(i, s) \<in> set (zip catalog_ids catalog_slugs)"
  shows "\<exists>c \<in> set (checks (DefaultRegistry U L T)). ID c = i \<and> Slug c = s"
proof -
  let ?cs = "checks (DefaultRegistry U L T)"
  have "zip catalog_ids catalog_slugs = zip (map ID ?cs) (map Slug ?cs)"
    by (simp only: ids_DefaultRegistry slugs_DefaultRegistry)
  also have "\<dots> = map (\<lambda>c. (ID c, Slug c)) ?cs"
    by (simp add: zip_map_map zip_same_conv_map)
  finally show ?thesis using assms by auto
qed

lemma Resolve_known_id:
  assumes "isASCII name" and "i \<in> set catalog_ids" and "eq_fold name i"
  shows "Resolve U L (DefaultRegistry U L T) name = Some i"
proof -
  from assms(2) have "i \<in> set (map ID (checks (DefaultRegistry U L T)))"
    by (simp only: ids_DefaultRegistry)
  then obtain c where "c \<in> set (checks (DefaultRegistry U L T))" and "ID c = i" by auto
  with Resolve_id_variant [OF assms(1), of c U L T] assms(3) show ?thesis by simp
qed

lemma Resolve_known_slug:
  assumes "isASCII name" and "(i, s) \<in> set (zip catalog_ids catalog_slugs)" and "eq_fold name s"
  shows "Resolve U L (DefaultRegistry U L T) name = Some i"
proof -
  from entry_of_id_slug [OF assms(2), of U L T]
  obtain c where "c \<in> set (checks (DefaultRegistry U L T))" and "ID c = i" and "Slug c = s"
    by auto
  with Resolve_slug_variant [OF assms(1), of c U L T] assms(3) show ?thesis by simp
qed

lemma Resolve_unknown_name:
  assumes "isASCII name"
    and "list_all (\<lambda>i. \<not> eq_fold name i) catalog_ids"
    and "list_all (\<lambda>s. \<not> eq_fold name s) catalog_slugs"
  shows "Resolve U L (DefaultRegistry U L T) name = None"
proof (rule Resolve_not_found [OF assms(1)], rule ballI)
  fix c assume c: "c \<in> set (checks (DefaultRegistry U L T))"
  from c have "ID c \<in> set catalog_ids" by (rule ID_in_catalog_ids)
  moreover from c have "Slug c \<in> set catalog_slugs" by (rule Slug_in_catalog_slugs)
  ultimately show "\<not> eq_fold name (ID c) \<and> \<not> eq_fold name (Slug c)"
    using assms(2,3) by (simp add: list_all_iff)
qed

lemma Resolve_ACL_001: "Resolve U L (DefaultRegistry U L T) ''ACL-001'' = Some ''ACL-001''"
proof (rule Resolve_known_id)
  show "isASCII ''ACL-001''" by code_simp
  show "''ACL-001'' \<in> set catalog_ids" by (simp add: catalog_ids_def)
  show "eq_fold ''ACL-001'' ''ACL-001''" by (simp add: eq_fold_def)
qed

lemma bogus_1_no_id: "list_all (\<lambda>i. \<not> eq_fold ''bogus-1'' i) catalog_ids"
  by code_simp

lemma bogus_1_no_slug: "list_all (\<lambda>s. \<not> eq_fold ''bogus-1'' s) catalog_slugs"
  by code_simp

lemma Resolve_bogus_1: "Resolve U L (DefaultRegistry U L T) ''bogus-1'' = None"
proof (rule Resolve_unknown_name)
  show "isASCII ''bogus-1''" by code_simp
  show "list_all (\<lambda>i. \<not> eq_fold ''bogus-1'' i) catalog_ids" by (rule bogus_1_no_id)
  show "list_all (\<lambda>s. \<not> eq_fold ''bogus-1'' s) catalog_slugs" by (rule bogus_1_no_slug)
qed

lemma Resolve_bogus_2: "Resolve U L (DefaultRegistry U L T) ''bogus-2'' = None"
proof (rule Resolve_unknown_name)
  show "isASCII ''bogus-2''" by code_simp
  show "list_all (\<lambda>i. \<not> eq_fold ''bogus-2'' i) catalog_ids" by code_simp
  show "list_all (\<lambda>s. \<not> eq_fold ''bogus-2'' s) catalog_slugs" by code_simp
qed

lemma Resolve_MagicDNS:
  "Resolve U L (DefaultRegistry U L T) ''MagicDNS-Configuration'' = Some ''DNS-001''"
proof (rule Resolve_known_slug)
  show "isASCII ''MagicDNS-Configuration''" by code_simp
  show "(''DNS-001'', ''magicdns-configuration'') \<in> set (zip catalog_ids catalog_slugs)"
    by (simp add: catalog_ids_def catalog_slugs_def)
  show "eq_fold ''MagicDNS-Configuration'' ''magicdns-configuration''" by code_simp
qed

lemma TrimSpace_examples:
  "TrimSpace T ''ACL-001'' = ''ACL-001''"
  "TrimSpace T ''bogus-1'' = ''bogus-1''"
  "TrimSpace T ''bogus-2'' = ''bogus-2''"
  "TrimSpace T '' acl-001 '' = ''acl-001''"
  "TrimSpace T ''  '' = []"
  "TrimSpace T [] = []"
  "TrimSpace T [CHR 0x09, CHR ''M'', CHR ''a'', CHR ''g'', CHR ''i'', CHR ''c'', CHR ''D'',
      CHR ''N'', CHR ''S'', CHR ''-'', CHR ''C'', CHR ''o'', CHR ''n'', CHR ''f'', CHR ''i'',
      CHR ''g'', CHR ''u'', CHR ''r'', CHR ''a'', CHR ''t'', CHR ''i'', CHR ''o'', CHR ''n'',
      CHR 0x0A] = ''MagicDNS-Configuration''"
  by code_simp+

section \<open>What a run does\<close>

lemma run_acl_char:
  "run_acl w (report, tr)
   = (report\<lparr>Suggestions := Suggestions report @ acl_findings w\<rparr>, tr @ [AuditACL])"
  by (cases "ACLAuditor_Audit w")
    (simp_all add: run_acl_def acl_findings_def contribution_def error_finding_def
      finding_def append_findings_def)

lemma run_auth_char:
  "run_auth w (report, tr)
   = (report\<lparr>Suggestions := Suggestions report @ auth_findings w\<rparr>, tr @ [AuditAuth])"
  by (cases "AuthAuditor_Audit w")
    (simp_all add: run_auth_def auth_findings_def contribution_def error_finding_def
      finding_def append_findings_def)

lemma run_device_char:
  "run_device w (report, tr)
   = (report\<lparr>Suggestions := Suggestions report @ device_findings w\<rparr>, tr @ [AuditDevice])"
  by (cases "DeviceAuditor_Audit w")
    (simp_all add: run_device_def device_findings_def contribution_def error_finding_def
      finding_def append_findings_def)

lemma run_network_char:
  "run_network w policy (report, tr)
   = (report\<lparr>Suggestions := Suggestions report @ network_findings w policy\<rparr>,
      tr @ [AuditNetwork policy])"
  by (cases "NetworkAuditor_Audit w policy")
    (simp_all add: run_network_def network_findings_def contribution_def error_finding_def
      finding_def append_findings_def)

lemma run_ssh_char:
  "run_ssh w policy (report, tr)
   = (report\<lparr>Suggestions := Suggestions report @ ssh_findings w policy\<rparr>,
      tr @ [AuditSSH policy])"
  by (cases "SSHAuditor_Audit w policy")
    (simp_all add: run_ssh_def ssh_findings_def contribution_def error_finding_def
      finding_def append_findings_def)

lemma run_logging_char:
  "run_logging w (report, tr)
   = (report\<lparr>Suggestions := Suggestions report @ logging_findings w\<rparr>, tr @ [AuditLogging])"
  by (cases "LoggingAuditor_Audit w")
    (simp_all add: run_logging_def logging_findings_def contribution_def error_finding_def
      finding_def append_findings_def)

lemma run_dns_char:
  "run_dns w (report, tr)
   = (report\<lparr>Suggestions := Suggestions report @ dns_findings w\<rparr>, tr @ [AuditDNS])"
  by (cases "DNSAuditor_Audit w")
    (simp_all add: run_dns_def dns_findings_def contribution_def error_finding_def
      finding_def append_findings_def)

lemma calculate_summary_char:
  "calculate_summary (report, tr)
   = (report\<lparr>Summary := CalculateSummary (Suggestions report)\<rparr>, tr @ [ComputeSummary])"
  by (simp add: calculate_summary_def)

lemma run_audits_char:
  "run_audits w policy (report, tr)
   = (report\<lparr>Suggestions := Suggestions report @ acl_findings w @ auth_findings w
               @ device_findings w @ network_findings w policy @ ssh_findings w policy
               @ logging_findings w @ dns_findings w,
             Summary := CalculateSummary (Suggestions report @ acl_findings w @ auth_findings w
               @ device_findings w @ network_findings w policy @ ssh_findings w policy
               @ logging_findings w @ dns_findings w)\<rparr>,
      tr @ category_order policy @ [ComputeSummary])"
  unfolding run_audits_def run_acl_char run_auth_char run_device_char run_network_char
    run_ssh_char run_logging_char run_dns_char calculate_summary_char category_order_def
  by simp

lemma fetch_policy_abort:
  "GetACLHuJSON w = Inl err \<Longrightarrow> isAuthError (Some err) \<Longrightarrow>
   fetch_policy zero w report = Inl (authentication_failed err)"
  by (simp add: fetch_policy_def)

lemma fetch_policy_char:
  assumes "\<not> aborts w"
  shows "fetch_policy zero w report
   = Inr (report\<lparr>Suggestions := Suggestions report @ policy_findings zero w\<rparr>,
          policy_value zero w)"
proof (cases "GetACLHuJSON w")
  case (Inl err)
  with assms have "\<not> isAuthError (Some err)" by (simp add: aborts_def)
  with Inl show ?thesis
    by (simp add: fetch_policy_def policy_findings_def policy_value_def append_findings_def)
next
  case (Inr acl)
  show ?thesis
  proof (cases "hujson_Standardize w acl")
    case (Inl err)
    with Inr show ?thesis
      by (simp add: fetch_policy_def policy_findings_def policy_value_def append_findings_def)
  next
    case std: (Inr std)
    obtain p e where u: "json_Unmarshal w std zero = (p, e)" by (cases "json_Unmarshal w std zero")
    with Inr std show ?thesis
      by (cases e)
        (simp_all add: fetch_policy_def policy_findings_def policy_value_def append_findings_def)
  qed
qed

lemma Run_abort:
  "GetACLHuJSON w = Inl err \<Longrightarrow> isAuthError (Some err) \<Longrightarrow>
   Run zero w = (Inl (authentication_failed err), [FetchPolicy])"
  by (simp add: Run_def fetch_policy_abort)

lemma Run_complete:
  "\<not> aborts w \<Longrightarrow>
   Run zero w
   = (Inr \<lparr>Timestamp = time_Now w, Tailnet = client_Tailnet w,
           Suggestions = policy_findings zero w @ acl_findings w @ auth_findings w
               @ device_findings w @ network_findings w (policy_value zero w)
               @ ssh_findings w (policy_value zero w)
               @ logging_findings w @ dns_findings w,
           Summary = CalculateSummary (policy_findings zero w @ acl_findings w @ auth_findings w
               @ device_findings w @ network_findings w (policy_value zero w)
               @ ssh_findings w (policy_value zero w)
               @ logging_findings w @ dns_findings w)\<rparr>,
      FetchPolicy # category_order (policy_value zero w) @ [ComputeSummary])"
  by (simp add: Run_def fetch_policy_char run_audits_char)

lemma aborts_iff:
  "aborts w = (\<exists>err. GetACLHuJSON w = Inl err \<and> isAuthError (Some err))"
  by (cases "GetACLHuJSON w") (simp_all add: aborts_def)

lemma isl_Run_iff: "isl (fst (Run zero w)) = aborts w"
proof (cases "aborts w")
  case True
  then obtain err where "GetACLHuJSON w = Inl err" and "isAuthError (Some err)"
    by (auto simp: aborts_iff)
  then have "Run zero w = (Inl (authentication_failed err), [FetchPolicy])" by (rule Run_abort)
  with True show ?thesis by simp
next
  case False
  then show ?thesis by (simp add: Run_complete)
qed

lemma findings_ok:
  "ACLAuditor_Audit w = Inr fa \<Longrightarrow> acl_findings w = fa"
  "AuthAuditor_Audit w = Inr fb \<Longrightarrow> auth_findings w = fb"
  "DeviceAuditor_Audit w = Inr fc \<Longrightarrow> device_findings w = fc"
  "NetworkAuditor_Audit w p = Inr fn \<Longrightarrow> network_findings w p = fn"
  "SSHAuditor_Audit w p = Inr fs \<Longrightarrow> ssh_findings w p = fs"
  "LoggingAuditor_Audit w = Inr fl \<Longrightarrow> logging_findings w = fl"
  "DNSAuditor_Audit w = Inr fd \<Longrightarrow> dns_findings w = fd"
  by (simp_all add: acl_findings_def auth_findings_def device_findings_def
      network_findings_def ssh_findings_def logging_findings_def dns_findings_def
      contribution_def)

lemma findings_error:
  "ACLAuditor_Audit w = Inl x \<Longrightarrow>
   acl_findings w = [error_finding ''ACL-ERR'' ''ACL audit error'' AccessControl
                       ''Error during ACL audit: '' x]"
  "AuthAuditor_Audit w = Inl x \<Longrightarrow>
   auth_findings w = [error_finding ''AUTH-ERR'' ''Auth audit error'' Authentication
                        ''Error during auth key audit: '' x]"
  "DeviceAuditor_Audit w = Inl x \<Longrightarrow>
   device_findings w = [error_finding ''DEV-ERR'' ''Device audit error'' DeviceSecurity
                          ''Error during device audit: '' x]"
  "NetworkAuditor_Audit w p = Inl x \<Longrightarrow>
   network_findings w p = [error_finding ''NET-ERR'' ''Network audit error'' NetworkExposure
                             ''Error during network audit: '' x]"
  "SSHAuditor_Audit w p = Inl x \<Longrightarrow>
   ssh_findings w p = [error_finding ''SSH-ERR'' ''SSH audit error'' SSHSecurity
                         ''Error during SSH audit: '' x]"
  "LoggingAuditor_Audit w = Inl x \<Longrightarrow>
   logging_findings w = [error_finding ''LOG-ERR'' ''Logging audit error'' LoggingAdmin
                           ''Error during logging audit: '' x]"
  "DNSAuditor_Audit w = Inl x \<Longrightarrow>
   dns_findings w = [error_finding ''DNS-ERR'' ''DNS audit error'' DNSConfiguration
                       ''Error during DNS audit: '' x]"
  by (simp_all add: acl_findings_def auth_findings_def device_findings_def
      network_findings_def ssh_findings_def logging_findings_def dns_findings_def
      contribution_def)

lemma audit_event_not_aborted:
  assumes "ev \<in> set (snd (Run zero w))" and "ev \<noteq> FetchPolicy"
  shows "\<not> aborts w"
proof
  assume "aborts w"
  then obtain err where "GetACLHuJSON w = Inl err" and "isAuthError (Some err)"
    by (auto simp: aborts_iff)
  then have "Run zero w = (Inl (authentication_failed err), [FetchPolicy])" by (rule Run_abort)
  with assms show False by simp
qed

lemma Run_report:
  assumes "\<not> aborts w"
  shows "\<exists>report.
      fst (Run zero w) = Inr report
      \<and> Summary report = CalculateSummary (Suggestions report)
      \<and> Suggestions report
          = policy_findings zero w @ acl_findings w @ auth_findings w @ device_findings w
            @ network_findings w (policy_value zero w) @ ssh_findings w (policy_value zero w)
            @ logging_findings w @ dns_findings w"
  by (simp add: Run_complete [OF assms])

lemma authentication_failed_not_raw: "authentication_failed err \<noteq> err"
proof
  assume "authentication_failed err = err"
  then have "length (authentication_failed err) = length err" by simp
  then show False by (simp add: authentication_failed_def)
qed

lemma Run_error_cases:
  assumes "fst (Run zero w) = Inl e"
  shows "\<exists>err. GetACLHuJSON w = Inl err \<and> isAuthError (Some err)
           \<and> e = authentication_failed err"
proof -
  from assms have "isl (fst (Run zero w))" by simp
  then have "aborts w" by (simp only: isl_Run_iff)
  then obtain err where g: "GetACLHuJSON w = Inl err" and a: "isAuthError (Some err)"
    by (auto simp: aborts_iff)
  then have "Run zero w = (Inl (authentication_failed err), [FetchPolicy])" by (rule Run_abort)
  with assms have "e = authentication_failed err" by simp
  with g a show ?thesis by blast
qed

lemma isAuthError_sublist:
  "isAuthError (Some x)
   = (sublist ''401'' x \<or> sublist ''API token invalid'' x \<or> sublist ''Unauthorized'' x
      \<or> sublist ''403'' x \<or> sublist ''Forbidden'' x)"
  by (simp add: isAuthError_def Contains_def)

lemma single_failure_acl:
  assumes ran: "AuditACL \<in> set (snd (Run zero w))"
    and o1: "ACLAuditor_Audit w = Inl e"
    and o2: "AuthAuditor_Audit w = Inr fb"
    and o3: "DeviceAuditor_Audit w = Inr fc"
    and o4: "NetworkAuditor_Audit w (policy_value zero w) = Inr fn"
    and o5: "SSHAuditor_Audit w (policy_value zero w) = Inr fs"
    and o6: "LoggingAuditor_Audit w = Inr fl"
    and o7: "DNSAuditor_Audit w = Inr fd"
  shows "(\<exists>report.
      fst (Run zero w) = Inr report
      \<and> Suggestions report
          = policy_findings zero w
          @ [error_finding ''ACL-ERR'' ''ACL audit error'' AccessControl
           ''Error during ACL audit: '' e]
          @ fb
          @ fc
          @ fn
          @ fs
          @ fl
          @ fd
      \<and> Summary report = CalculateSummary (Suggestions report))"
proof -
  have na: "\<not> aborts w" using ran by (rule audit_event_not_aborted) simp
  have f1: "acl_findings w = [error_finding ''ACL-ERR'' ''ACL audit error'' AccessControl ''Error during ACL audit: '' e]"
    using o1 by (rule findings_error)
  have f2: "auth_findings w = fb" using o2 by (rule findings_ok)
  have f3: "device_findings w = fc" using o3 by (rule findings_ok)
  have f4: "network_findings w (policy_value zero w) = fn" using o4 by (rule findings_ok)
  have f5: "ssh_findings w (policy_value zero w) = fs" using o5 by (rule findings_ok)
  have f6: "logging_findings w = fl" using o6 by (rule findings_ok)
  have f7: "dns_findings w = fd" using o7 by (rule findings_ok)
  from Run_report [OF na, of zero] show ?thesis
    by (simp only: f1 f2 f3 f4 f5 f6 f7) blast
qed

lemma single_failure_auth:
  assumes ran: "AuditAuth \<in> set (snd (Run zero w))"
    and o1: "ACLAuditor_Audit w = Inr fa"
    and o2: "AuthAuditor_Audit w = Inl e"
    and o3: "DeviceAuditor_Audit w = Inr fc"
    and o4: "NetworkAuditor_Audit w (policy_value zero w) = Inr fn"
    and o5: "SSHAuditor_Audit w (policy_value zero w) = Inr fs"
    and o6: "LoggingAuditor_Audit w = Inr fl"
    and o7: "DNSAuditor_Audit w = Inr fd"
  shows "(\<exists>report.
      fst (Run zero w) = Inr report
      \<and> Suggestions report
          = policy_findings zero w
          @ fa
          @ [error_finding ''AUTH-ERR'' ''Auth audit error'' Authentication
           ''Error during auth key audit: '' e]
          @ fc
          @ fn
          @ fs
          @ fl
          @ fd
      \<and> Summary report = CalculateSummary (Suggestions report))"
proof -
  have na: "\<not> aborts w" using ran by (rule audit_event_not_aborted) simp
  have f1: "acl_findings w = fa" using o1 by (rule findings_ok)
  have f2: "auth_findings w = [error_finding ''AUTH-ERR'' ''Auth audit error'' Authentication ''Error during auth key audit: '' e]"
    using o2 by (rule findings_error)
  have f3: "device_findings w = fc" using o3 by (rule findings_ok)
  have f4: "network_findings w (policy_value zero w) = fn" using o4 by (rule findings_ok)
  have f5: "ssh_findings w (policy_value zero w) = fs" using o5 by (rule findings_ok)
  have f6: "logging_findings w = fl" using o6 by (rule findings_ok)
  have f7: "dns_findings w = fd" using o7 by (rule findings_ok)
  from Run_report [OF na, of zero] show ?thesis
    by (simp only: f1 f2 f3 f4 f5 f6 f7) blast
qed

lemma single_failure_device:
  assumes ran: "AuditDevice \<in> set (snd (Run zero w))"
    and o1: "ACLAuditor_Audit w = Inr fa"
    and o2: "AuthAuditor_Audit w = Inr fb"
    and o3: "DeviceAuditor_Audit w = Inl e"
    and o4: "NetworkAuditor_Audit w (policy_value zero w) = Inr fn"
    and o5: "SSHAuditor_Audit w (policy_value zero w) = Inr fs"
    and o6: "LoggingAuditor_Audit w = Inr fl"
    and o7: "DNSAuditor_Audit w = Inr fd"
  shows "(\<exists>report.
      fst (Run zero w) = Inr report
      \<and> Suggestions report
          = policy_findings zero w
          @ fa
          @ fb
          @ [error_finding ''DEV-ERR'' ''Device audit error'' DeviceSecurity
           ''Error during device audit: '' e]
          @ fn
          @ fs
          @ fl
          @ fd
      \<and> Summary report = CalculateSummary (Suggestions report))"
proof -
  have na: "\<not> aborts w" using ran by (rule audit_event_not_aborted) simp
  have f1: "acl_findings w = fa" using o1 by (rule findings_ok)
  have f2: "auth_findings w = fb" using o2 by (rule findings_ok)
  have f3: "device_findings w = [error_finding ''DEV-ERR'' ''Device audit error'' DeviceSecurity ''Error during device audit: '' e]"
    using o3 by (rule findings_error)
  have f4: "network_findings w (policy_value zero w) = fn" using o4 by (rule findings_ok)
  have f5: "ssh_findings w (policy_value zero w) = fs" using o5 by (rule findings_ok)
  have f6: "logging_findings w = fl" using o6 by (rule findings_ok)
  have f7: "dns_findings w = fd" using o7 by (rule findings_ok)
  from Run_report [OF na, of zero] show ?thesis
    by (simp only: f1 f2 f3 f4 f5 f6 f7) blast
qed

lemma single_failure_network:
  assumes ran: "AuditNetwork (policy_value zero w) \<in> set (snd (Run zero w))"
    and o1: "ACLAuditor_Audit w = Inr fa"
    and o2: "AuthAuditor_Audit w = Inr fb"
    and o3: "DeviceAuditor_Audit w = Inr fc"
    and o4: "NetworkAuditor_Audit w (policy_value zero w) = Inl e"
    and o5: "SSHAuditor_Audit w (policy_value zero w) = Inr fs"
    and o6: "LoggingAuditor_Audit w = Inr fl"
    and o7: "DNSAuditor_Audit w = Inr fd"
  shows "(\<exists>report.
      fst (Run zero w) = Inr report
      \<and> Suggestions report
          = policy_findings zero w
          @ fa
          @ fb
          @ fc
          @ [error_finding ''NET-ERR'' ''Network audit error'' NetworkExposure
           ''Error during network audit: '' e]
          @ fs
          @ fl
          @ fd
      \<and> Summary report = CalculateSummary (Suggestions report))"
proof -
  have na: "\<not> aborts w" using ran by (rule audit_event_not_aborted) simp
  have f1: "acl_findings w = fa" using o1 by (rule findings_ok)
  have f2: "auth_findings w = fb" using o2 by (rule findings_ok)
  have f3: "device_findings w = fc" using o3 by (rule findings_ok)
  have f4: "network_findings w (policy_value zero w) = [error_finding ''NET-ERR'' ''Network audit error'' NetworkExposure ''Error during network audit: '' e]"
    using o4 by (rule findings_error)
  have f5: "ssh_findings w (policy_value zero w) = fs" using o5 by (rule findings_ok)
  have f6: "logging_findings w = fl" using o6 by (rule findings_ok)
  have f7: "dns_findings w = fd" using o7 by (rule findings_ok)
  from Run_report [OF na, of zero] show ?thesis
    by (simp only: f1 f2 f3 f4 f5 f6 f7) blast
qed

lemma single_failure_ssh:
  assumes ran: "AuditSSH (policy_value zero w) \<in> set (snd (Run zero w))"
    and o1: "ACLAuditor_Audit w = Inr fa"
    and o2: "AuthAuditor_Audit w = Inr fb"
    and o3: "DeviceAuditor_Audit w = Inr fc"
    and o4: "NetworkAuditor_Audit w (policy_value zero w) = Inr fn"
    and o5: "SSHAuditor_Audit w (policy_value zero w) = Inl e"
    and o6: "LoggingAuditor_Audit w = Inr fl"
    and o7: "DNSAuditor_Audit w = Inr fd"
  shows "(\<exists>report.
      fst (Run zero w) = Inr report
      \<and> Suggestions report
          = policy_findings zero w
          @ fa
          @ fb
          @ fc
          @ fn
          @ [error_finding ''SSH-ERR'' ''SSH audit error'' SSHSecurity
           ''Error during SSH audit: '' e]
          @ fl
          @ fd
      \<and> Summary report = CalculateSummary (Suggestions report))"
proof -
  have na: "\<not> aborts w" using ran by (rule audit_event_not_aborted) simp
  have f1: "acl_findings w = fa" using o1 by (rule findings_ok)
  have f2: "auth_findings w = fb" using o2 by (rule findings_ok)
  have f3: "device_findings w = fc" using o3 by (rule findings_ok)
  have f4: "network_findings w (policy_value zero w) = fn" using o4 by (rule findings_ok)
  have f5: "ssh_findings w (policy_value zero w) = [error_finding ''SSH-ERR'' ''SSH audit error'' SSHSecurity ''Error during SSH audit: '' e]"
    using o5 by (rule findings_error)
  have f6: "logging_findings w = fl" using o6 by (rule findings_ok)
  have f7: "dns_findings w = fd" using o7 by (rule findings_ok)
  from Run_report [OF na, of zero] show ?thesis
    by (simp only: f1 f2 f3 f4 f5 f6 f7) blast
qed

lemma single_failure_logging:
  assumes ran: "AuditLogging \<in> set (snd (Run zero w))"
    and o1: "ACLAuditor_Audit w = Inr fa"
    and o2: "AuthAuditor_Audit w = Inr fb"
    and o3: "DeviceAuditor_Audit w = Inr fc"
    and o4: "NetworkAuditor_Audit w (policy_value zero w) = Inr fn"
    and o5: "SSHAuditor_Audit w (policy_value zero w) = Inr fs"
    and o6: "LoggingAuditor_Audit w = Inl e"
    and o7: "DNSAuditor_Audit w = Inr fd"
  shows "(\<exists>report.
      fst (Run zero w) = Inr report
      \<and> Suggestions report
          = policy_findings zero w
          @ fa
          @ fb
          @ fc
          @ fn
          @ fs
          @ [error_finding ''LOG-ERR'' ''Logging audit error'' LoggingAdmin
           ''Error during logging audit: '' e]
          @ fd
      \<and> Summary report = CalculateSummary (Suggestions report))"
proof -
  have na: "\<not> aborts w" using ran by (rule audit_event_not_aborted) simp
  have f1: "acl_findings w = fa" using o1 by (rule findings_ok)
  have f2: "auth_findings w = fb" using o2 by (rule findings_ok)
  have f3: "device_findings w = fc" using o3 by (rule findings_ok)
  have f4: "network_findings w (policy_value zero w) = fn" using o4 by (rule findings_ok)
  have f5: "ssh_findings w (policy_value zero w) = fs" using o5 by (rule findings_ok)
  have f6: "logging_findings w = [error_finding ''LOG-ERR'' ''Logging audit error'' LoggingAdmin ''Error during logging audit: '' e]"
    using o6 by (rule findings_error)
  have f7: "dns_findings w = fd" using o7 by (rule findings_ok)
  from Run_report [OF na, of zero] show ?thesis
    by (simp only: f1 f2 f3 f4 f5 f6 f7) blast
qed

lemma single_failure_dns:
  assumes ran: "AuditDNS \<in> set (snd (Run zero w))"
    and o1: "ACLAuditor_Audit w = Inr fa"
    and o2: "AuthAuditor_Audit w = Inr fb"
    and o3: "DeviceAuditor_Audit w = Inr fc"
    and o4: "NetworkAuditor_Audit w (policy_value zero w) = Inr fn"
    and o5: "SSHAuditor_Audit w (policy_value zero w) = Inr fs"
    and o6: "LoggingAuditor_Audit w = Inr fl"
    and o7: "DNSAuditor_Audit w = Inl e"
  shows "(\<exists>report.
      fst (Run zero w) = Inr report
      \<and> Suggestions report
          = policy_findings zero w
          @ fa
          @ fb
          @ fc
          @ fn
          @ fs
          @ fl
          @ [error_finding ''DNS-ERR'' ''DNS audit error'' DNSConfiguration
           ''Error during DNS audit: '' e]
      \<and> Summary report = CalculateSummary (Suggestions report))"
proof -
  have na: "\<not> aborts w" using ran by (rule audit_event_not_aborted) simp
  have f1: "acl_findings w = fa" using o1 by (rule findings_ok)
  have f2: "auth_findings w = fb" using o2 by (rule findings_ok)
  have f3: "device_findings w = fc" using o3 by (rule findings_ok)
  have f4: "network_findings w (policy_value zero w) = fn" using o4 by (rule findings_ok)
  have f5: "ssh_findings w (policy_value zero w) = fs" using o5 by (rule findings_ok)
  have f6: "logging_findings w = fl" using o6 by (rule findings_ok)
  have f7: "dns_findings w = [error_finding ''DNS-ERR'' ''DNS audit error'' DNSConfiguration ''Error during DNS audit: '' e]"
    using o7 by (rule findings_error)
  from Run_report [OF na, of zero] show ?thesis
    by (simp only: f1 f2 f3 f4 f5 f6 f7) blast
qed

lemma Run_fetch_timeout_world:
  "fst (Run [] fetch_timeout_world)
   = Inr \<lparr>Timestamp = 1765967400, Tailnet = ''example.com'',
          Suggestions =
            [finding ''SYS-001'' ''Could not retrieve ACL policy'' High AccessControl
               ''Failed to retrieve ACL policy: context deadline exceeded. ACL-related checks will be skipped.''
               ''Verify API key has sufficient permissions to read ACL policy.'' False,
             finding ''ACL-003'' ''No ACL tests defined'' Low AccessControl [] [] False,
             finding ''DEV-010'' ''Tailnet Lock not enabled'' High DeviceSecurity [] [] False],
          Summary = \<lparr>critical = 0, high = 2, medium = 0, low = 1, info = 0, passed = 0,
                      total_count = 3\<rparr>\<rparr>"
  by code_simp

lemma Run_partial_parse_world:
  "snd (Run [] partial_parse_world)
       = [FetchPolicy, AuditACL, AuditAuth, AuditDevice, AuditNetwork [''groups''],
          AuditSSH [''groups''], AuditLogging, AuditDNS, ComputeSummary]"
proof -
  have na: "\<not> aborts partial_parse_world"
    by (simp add: aborts_def partial_parse_world_def base_world_def)
  have pv: "policy_value [] partial_parse_world = [''groups'']"
    by (simp add: policy_value_def partial_parse_world_def base_world_def)
  show ?thesis
    unfolding Run_complete [OF na] pv category_order_def by simp
qed

lemma Resolve_spec_None_iff:
  "(Resolve_spec P Q cs name = None)
   = (\<forall>c \<in> set cs. \<not> P name (ID c) \<and> \<not> Q name (Slug c))"
proof -
  have "(Resolve_spec P Q cs name = None)
        = (find (\<lambda>c. P name (ID c)) cs = None \<and> find (\<lambda>c. Q name (Slug c)) cs = None)"
    by (simp add: Resolve_spec_def split: option.split)
  also have "\<dots> = (\<forall>c \<in> set cs. \<not> P name (ID c) \<and> \<not> Q name (Slug c))"
    by (simp only: find_None_iff) blast
  finally show ?thesis .
qed

lemma Resolve_spec_Some_in:
  "Resolve_spec P Q cs name = Some i \<Longrightarrow> i \<in> set (map ID cs)"
  by (auto simp: Resolve_spec_def find_Some_iff split: option.splits)

lemma Resolve_None_iff:
  "(Resolve U L (DefaultRegistry U L T) name = None)
   = (\<forall>c \<in> set (checks (DefaultRegistry U L T)).
        ToUpper U name \<noteq> ToUpper U (ID c) \<and> ToLower L name \<noteq> ToLower L (Slug c))"
  by (simp only: Resolve_go_fold Resolve_spec_None_iff)

lemma Resolve_Some_canonical:
  "\<forall>i. Resolve U L (DefaultRegistry U L T) name = Some i \<longrightarrow>
     i \<in> set (map ID (checks (DefaultRegistry U L T)))"
  by (simp only: Resolve_go_fold) (blast dest: Resolve_spec_Some_in)

section \<open>The claims about the registry\<close>


text \<open>
  C6. Resolve on the default registry, for every name: it returns the ID of the entry
  whose ID equals the name up to case, otherwise the ID of the entry whose slug equals
  the name up to case, otherwise not found (a value, \<open>None\<close>: nothing aborts). "Up to
  case" is what Go's ToUpper (for IDs) and ToLower (for slugs) identify; for a name that
  is all ASCII both are equality up to the case of the ASCII letters. So every ASCII case
  variant of an ID or of a slug resolves to the canonical ID, every other ASCII name is
  not found, and "acl-001" resolves to "ACL-001". Every name that matches no ID and no
  slug is not found, and an ID that Resolve returns is the ID of a catalog entry.
\<close>

theorem Resolve_case_insensitive:
  "Resolve U L (DefaultRegistry U L T) name
     = Resolve_spec (\<lambda>a b. ToUpper U a = ToUpper U b) (\<lambda>a b. ToLower L a = ToLower L b)
         (checks (DefaultRegistry U L T)) name
   \<and> (isASCII name \<longrightarrow>
        Resolve U L (DefaultRegistry U L T) name
          = Resolve_spec eq_fold eq_fold (checks (DefaultRegistry U L T)) name)
   \<and> (\<forall>c \<in> set (checks (DefaultRegistry U L T)).
        isASCII name \<and> eq_fold name (ID c) \<longrightarrow>
          Resolve U L (DefaultRegistry U L T) name = Some (ID c))
   \<and> (\<forall>c \<in> set (checks (DefaultRegistry U L T)).
        isASCII name \<and> eq_fold name (Slug c) \<longrightarrow>
          Resolve U L (DefaultRegistry U L T) name = Some (ID c))
   \<and> (isASCII name \<and> (\<forall>c \<in> set (checks (DefaultRegistry U L T)).
          \<not> eq_fold name (ID c) \<and> \<not> eq_fold name (Slug c)) \<longrightarrow>
        Resolve U L (DefaultRegistry U L T) name = None)
   \<and> (Resolve U L (DefaultRegistry U L T) name = None)
       = (\<forall>c \<in> set (checks (DefaultRegistry U L T)).
            ToUpper U name \<noteq> ToUpper U (ID c) \<and> ToLower L name \<noteq> ToLower L (Slug c))
   \<and> (\<forall>i. Resolve U L (DefaultRegistry U L T) name = Some i \<longrightarrow>
          i \<in> set (map ID (checks (DefaultRegistry U L T))))
   \<and> Resolve U L (DefaultRegistry U L T) ''acl-001'' = Some ''ACL-001''"
  using Resolve_None_iff [of U L T name] Resolve_Some_canonical [of U L T name]
    Resolve_go_fold [of U L T name] Resolve_ascii_fold [of name U L T]
    Resolve_id_variant [of name _ U L T] Resolve_slug_variant [of name _ U L T]
    Resolve_not_found [of name U L T] Resolve_acl_001 [of U L T]
  by blast

theorem Resolve_case_insensitive_witness:
  "isASCII ''MagicDNS-Configuration''
   \<and> Resolve (\<lambda>s. s) (\<lambda>s. s) (DefaultRegistry (\<lambda>s. s) (\<lambda>s. s) (\<lambda>s. s))
         ''MagicDNS-Configuration'' = Some ''DNS-001''
   \<and> isASCII ''bogus-1''
   \<and> Resolve (\<lambda>s. s) (\<lambda>s. s) (DefaultRegistry (\<lambda>s. s) (\<lambda>s. s) (\<lambda>s. s)) ''bogus-1'' = None"
proof -
  let ?I = "\<lambda>s::string. s"
  let ?R = "DefaultRegistry ?I ?I ?I"
  have a1: "isASCII ''MagicDNS-Configuration''" by code_simp
  have e1: "eq_fold ''MagicDNS-Configuration'' ''magicdns-configuration''" by code_simp
  have "(''DNS-001'', ''magicdns-configuration'') \<in> set (zip catalog_ids catalog_slugs)"
    by (simp add: catalog_ids_def catalog_slugs_def)
  then obtain c where c: "c \<in> set (checks ?R)"
    and ic: "ID c = ''DNS-001''" and sc: "Slug c = ''magicdns-configuration''"
    using entry_of_id_slug [of "''DNS-001''" "''magicdns-configuration''" ?I ?I ?I] by blast
  have e1': "isASCII ''MagicDNS-Configuration'' \<and> eq_fold ''MagicDNS-Configuration'' (Slug c)"
    using a1 e1 sc by (simp only: simp_thms)
  note slug_part = Resolve_case_insensitive [of ?I ?I ?I "''MagicDNS-Configuration''",
      THEN conjunct2, THEN conjunct2, THEN conjunct2, THEN conjunct1]
  have "Resolve ?I ?I ?R ''MagicDNS-Configuration'' = Some (ID c)"
    by (rule slug_part [THEN bspec, OF c, THEN mp, OF e1'])
  then have r1: "Resolve ?I ?I ?R ''MagicDNS-Configuration'' = Some ''DNS-001''"
    by (simp only: ic)
  have a2: "isASCII ''bogus-1''" by code_simp
  have ni: "list_all (\<lambda>i. \<not> eq_fold ''bogus-1'' i) catalog_ids" by (rule bogus_1_no_id)
  have ns: "list_all (\<lambda>s. \<not> eq_fold ''bogus-1'' s) catalog_slugs" by (rule bogus_1_no_slug)
  have no: "\<forall>c \<in> set (checks ?R). \<not> eq_fold ''bogus-1'' (ID c) \<and> \<not> eq_fold ''bogus-1'' (Slug c)"
  proof
    fix c assume c: "c \<in> set (checks ?R)"
    from c have "ID c \<in> set catalog_ids" by (rule ID_in_catalog_ids)
    moreover from c have "Slug c \<in> set catalog_slugs" by (rule Slug_in_catalog_slugs)
    ultimately show "\<not> eq_fold ''bogus-1'' (ID c) \<and> \<not> eq_fold ''bogus-1'' (Slug c)"
      using ni ns unfolding list_all_iff by blast
  qed
  note none_part = Resolve_case_insensitive [of ?I ?I ?I "''bogus-1''",
      THEN conjunct2, THEN conjunct2, THEN conjunct2, THEN conjunct2, THEN conjunct1]
  have r2: "Resolve ?I ?I ?R ''bogus-1'' = None"
    by (rule none_part [THEN mp, OF conjI [OF a2 no]])
  from a1 r1 a2 r2 show ?thesis by (intro conjI)
qed

text \<open>
  C5. ResolveAll fails exactly when at least one name that is not empty after trimming
  resolves neither as an ID nor as a slug. Its error is then the single message
  "unknown check(s): " followed by all those names, in input order, joined by ", ", so
  every one of them occurs in the message. ResolveAll(["ACL-001","bogus-1","bogus-2"])
  on the default registry fails with a message naming both bogus-1 and bogus-2.
\<close>

theorem ResolveAll_fails_naming_all_unknown:
  "(isl (ResolveAll U L T r names)
      = (\<exists>n \<in> set names. TrimSpace T n \<noteq> [] \<and> Resolve U L r (TrimSpace T n) = None))
   \<and> (\<forall>e. ResolveAll U L T r names = Inl e \<longrightarrow>
          e = ''unknown check(s): '' @ Join (unresolved U L T r names) '', ''
          \<and> (\<forall>n \<in> set names.
                TrimSpace T n \<noteq> [] \<and> Resolve U L r (TrimSpace T n) = None
                  \<longrightarrow> sublist (TrimSpace T n) e))
   \<and> ResolveAll U L T (DefaultRegistry U L T) [''ACL-001'', ''bogus-1'', ''bogus-2'']
       = Inl ''unknown check(s): bogus-1, bogus-2''"
proof (intro conjI allI impI)
  show "isl (ResolveAll U L T r names)
      = (\<exists>n \<in> set names. TrimSpace T n \<noteq> [] \<and> Resolve U L r (TrimSpace T n) = None)"
    by (simp add: ResolveAll_char unresolved_nonempty_iff [symmetric])
next
  fix e assume e: "ResolveAll U L T r names = Inl e"
  then show msg: "e = ''unknown check(s): '' @ Join (unresolved U L T r names) '', ''"
    by (simp add: ResolveAll_char split: if_splits)
  show "\<forall>n \<in> set names.
          TrimSpace T n \<noteq> [] \<and> Resolve U L r (TrimSpace T n) = None
            \<longrightarrow> sublist (TrimSpace T n) e"
  proof (intro ballI impI)
    fix n assume "n \<in> set names"
      and "TrimSpace T n \<noteq> [] \<and> Resolve U L r (TrimSpace T n) = None"
    then have "TrimSpace T n \<in> set (unresolved U L T r names)"
      by (auto simp: set_unresolved)
    then have "sublist (TrimSpace T n) (Join (unresolved U L T r names) '', '')"
      by (rule sublist_Join)
    then show "sublist (TrimSpace T n) e"
      unfolding msg by (simp only: sublist_append) simp
  qed
next
  show "ResolveAll U L T (DefaultRegistry U L T) [''ACL-001'', ''bogus-1'', ''bogus-2'']
       = Inl ''unknown check(s): bogus-1, bogus-2''"
    by (simp add: ResolveAll_char unresolved_def trimmed_names_def TrimSpace_examples
        Resolve_ACL_001 Resolve_bogus_1 Resolve_bogus_2)
qed

theorem ResolveAll_fails_naming_all_unknown_witness:
  "TrimSpace (\<lambda>s. s) ''bogus-2'' \<noteq> []
   \<and> Resolve (\<lambda>s. s) (\<lambda>s. s) (DefaultRegistry (\<lambda>s. s) (\<lambda>s. s) (\<lambda>s. s))
        (TrimSpace (\<lambda>s. s) ''bogus-2'') = None
   \<and> ResolveAll (\<lambda>s. s) (\<lambda>s. s) (\<lambda>s. s) (DefaultRegistry (\<lambda>s. s) (\<lambda>s. s) (\<lambda>s. s))
        [''ACL-001'', ''bogus-1'', ''bogus-2'']
       = Inl ''unknown check(s): bogus-1, bogus-2''
   \<and> sublist ''bogus-2'' ''unknown check(s): bogus-1, bogus-2''"
proof -
  let ?I = "\<lambda>s::string. s"
  let ?R = "DefaultRegistry ?I ?I ?I"
  let ?names = "[''ACL-001'', ''bogus-1'', ''bogus-2'']"
  note inst = ResolveAll_fails_naming_all_unknown [of ?I ?I ?I ?R ?names]
  have t: "TrimSpace ?I ''bogus-2'' = ''bogus-2''" by (rule TrimSpace_examples)
  have r: "Resolve ?I ?I ?R ''bogus-2'' = None" by (rule Resolve_bogus_2)
  from inst have ex: "ResolveAll ?I ?I ?I ?R ?names = Inl ''unknown check(s): bogus-1, bogus-2''"
    by blast
  from inst ex have "\<forall>n \<in> set ?names.
      TrimSpace ?I n \<noteq> [] \<and> Resolve ?I ?I ?R (TrimSpace ?I n) = None
        \<longrightarrow> sublist (TrimSpace ?I n) ''unknown check(s): bogus-1, bogus-2''"
    by blast
  then have "sublist ''bogus-2'' ''unknown check(s): bogus-1, bogus-2''"
    using t r by simp
  with t r ex show ?thesis by simp
qed

text \<open>
  C10. ResolveAll trims every input name and skips the names that are empty after
  trimming: its result is determined by the trimmed non-empty names alone, an empty
  string is never among the names reported as unknown, dropping the inputs that trim to
  the empty string changes nothing, and on success the returned IDs are the IDs of the
  remaining names, one for each, in input order.
\<close>

theorem ResolveAll_trims_and_skips_empty:
  "ResolveAll U L T r names
     = (if unresolved U L T r names \<noteq> []
        then Inl (''unknown check(s): '' @ Join (unresolved U L T r names) '', '')
        else Inr (List.map_filter (Resolve U L r) (trimmed_names T names)))
   \<and> trimmed_names T names = filter (\<lambda>n. n \<noteq> []) (map (TrimSpace T) names)
   \<and> [] \<notin> set (unresolved U L T r names)
   \<and> ResolveAll U L T r (filter (\<lambda>n. TrimSpace T n \<noteq> []) names) = ResolveAll U L T r names
   \<and> (\<forall>ids. ResolveAll U L T r names = Inr ids \<longrightarrow>
          map (Resolve U L r) (trimmed_names T names) = map Some ids)
   \<and> ResolveAll U L T (DefaultRegistry U L T)
        ['' acl-001 '', ''  '', [],
         [CHR 0x09, CHR ''M'', CHR ''a'', CHR ''g'', CHR ''i'', CHR ''c'', CHR ''D'',
          CHR ''N'', CHR ''S'', CHR ''-'', CHR ''C'', CHR ''o'', CHR ''n'', CHR ''f'', CHR ''i'',
          CHR ''g'', CHR ''u'', CHR ''r'', CHR ''a'', CHR ''t'', CHR ''i'', CHR ''o'', CHR ''n'',
          CHR 0x0A]]
       = Inr [''ACL-001'', ''DNS-001'']"
proof (intro conjI allI impI)
  show "ResolveAll U L T r names
     = (if unresolved U L T r names \<noteq> []
        then Inl (''unknown check(s): '' @ Join (unresolved U L T r names) '', '')
        else Inr (List.map_filter (Resolve U L r) (trimmed_names T names)))"
    by (rule ResolveAll_char)
  show "trimmed_names T names = filter (\<lambda>n. n \<noteq> []) (map (TrimSpace T) names)"
    by (rule trimmed_names_def)
  show "[] \<notin> set (unresolved U L T r names)"
    by (simp add: unresolved_def trimmed_names_def)
  show "ResolveAll U L T r (filter (\<lambda>n. TrimSpace T n \<noteq> []) names) = ResolveAll U L T r names"
    by (simp only: ResolveAll_char unresolved_def trimmed_names_skip)
next
  fix ids assume "ResolveAll U L T r names = Inr ids"
  then have u: "unresolved U L T r names = []"
    and i: "ids = List.map_filter (Resolve U L r) (trimmed_names T names)"
    by (auto simp: ResolveAll_char split: if_splits)
  from u show "map (Resolve U L r) (trimmed_names T names) = map Some ids"
    unfolding i unresolved_def by (rule map_filter_all_Some [symmetric])
next
  show "ResolveAll U L T (DefaultRegistry U L T)
        ['' acl-001 '', ''  '', [],
         [CHR 0x09, CHR ''M'', CHR ''a'', CHR ''g'', CHR ''i'', CHR ''c'', CHR ''D'',
          CHR ''N'', CHR ''S'', CHR ''-'', CHR ''C'', CHR ''o'', CHR ''n'', CHR ''f'', CHR ''i'',
          CHR ''g'', CHR ''u'', CHR ''r'', CHR ''a'', CHR ''t'', CHR ''i'', CHR ''o'', CHR ''n'',
          CHR 0x0A]]
       = Inr [''ACL-001'', ''DNS-001'']"
    by (simp add: ResolveAll_char unresolved_def trimmed_names_def TrimSpace_examples
        Resolve_acl_001 Resolve_MagicDNS)
qed

theorem ResolveAll_trims_and_skips_empty_witness:
  "ResolveAll (\<lambda>s. s) (\<lambda>s. s) (\<lambda>s. s) (DefaultRegistry (\<lambda>s. s) (\<lambda>s. s) (\<lambda>s. s))
        [''  '', ''ACL-001'', []] = Inr [''ACL-001'']
   \<and> map (Resolve (\<lambda>s. s) (\<lambda>s. s) (DefaultRegistry (\<lambda>s. s) (\<lambda>s. s) (\<lambda>s. s)))
        (trimmed_names (\<lambda>s. s) [''  '', ''ACL-001'', []]) = [Some ''ACL-001'']"
proof -
  let ?I = "\<lambda>s::string. s"
  let ?R = "DefaultRegistry ?I ?I ?I"
  let ?names = "[''  '', ''ACL-001'', []]"
  note inst = ResolveAll_trims_and_skips_empty [of ?I ?I ?I ?R ?names]
  have tn: "trimmed_names ?I ?names = [''ACL-001'']"
    by (simp add: trimmed_names_def TrimSpace_examples)
  have u: "unresolved ?I ?I ?I ?R ?names = []"
    by (simp add: unresolved_def tn Resolve_ACL_001)
  from inst have "ResolveAll ?I ?I ?I ?R ?names
      = Inr (List.map_filter (Resolve ?I ?I ?R) (trimmed_names ?I ?names))"
    by (simp only: u) simp
  then have ok: "ResolveAll ?I ?I ?I ?R ?names = Inr [''ACL-001'']"
    by (simp add: tn Resolve_ACL_001)
  from inst ok have "map (Resolve ?I ?I ?R) (trimmed_names ?I ?names) = map Some [''ACL-001'']"
    by blast
  with ok show ?thesis by simp
qed

section \<open>The claims about the orchestrator\<close>

text \<open>
  C1. If the fetch of the policy document fails with an error of the authentication
  class (isAuthError: the message contains 401, 403, Unauthorized, Forbidden or "API
  token invalid"), Run returns no report and the authentication-failure error: the text
  "authentication failed: ", the message of the fetch error, and the guidance on the
  API key. The only call made is the fetch, so no auditor runs and no finding is
  produced. Run returns an error in no other case: whenever it returns an error, the
  fetch has failed with an error of the authentication class and the error returned is
  that text, which begins with "authentication failed: " and is never the fetch error
  itself.
\<close>

theorem Run_aborts_on_authentication_error:
  "(\<forall>err. GetACLHuJSON w = Inl err \<and> isAuthError (Some err) \<longrightarrow>
      Run zero w
        = (Inl (''authentication failed: '' @ err @ [CHR 0x0A, CHR 0x0A]
                @ ''Please check your TSKEY environment variable contains a valid API key.''
                @ [CHR 0x0A]
                @ ''Generate a new key at: https://login.tailscale.com/admin/settings/keys''),
           [FetchPolicy]))
   \<and> (\<forall>e. fst (Run zero w) = Inl e \<longrightarrow>
         (\<exists>err. GetACLHuJSON w = Inl err \<and> isAuthError (Some err)
            \<and> e = ''authentication failed: '' @ err @ [CHR 0x0A, CHR 0x0A]
                @ ''Please check your TSKEY environment variable contains a valid API key.''
                @ [CHR 0x0A]
                @ ''Generate a new key at: https://login.tailscale.com/admin/settings/keys''
            \<and> e \<noteq> err)
         \<and> prefix ''authentication failed: '' e)
   \<and> ((\<exists>e. fst (Run zero w) = Inl e)
        = (\<exists>err. GetACLHuJSON w = Inl err \<and> isAuthError (Some err)))
   \<and> isAuthError (Some x)
       = (sublist ''401'' x \<or> sublist ''API token invalid'' x \<or> sublist ''Unauthorized'' x
          \<or> sublist ''403'' x \<or> sublist ''Forbidden'' x)
   \<and> \<not> isAuthError None"
proof (intro conjI allI impI)
  fix err assume "GetACLHuJSON w = Inl err \<and> isAuthError (Some err)"
  then have "Run zero w = (Inl (authentication_failed err), [FetchPolicy])"
    by (simp add: Run_abort)
  then show "Run zero w
        = (Inl (''authentication failed: '' @ err @ [CHR 0x0A, CHR 0x0A]
                @ ''Please check your TSKEY environment variable contains a valid API key.''
                @ [CHR 0x0A]
                @ ''Generate a new key at: https://login.tailscale.com/admin/settings/keys''),
           [FetchPolicy])"
    by (simp only: authentication_failed_def)
next
  fix e assume e: "fst (Run zero w) = Inl e"
  from Run_error_cases [OF e]
  obtain err where g: "GetACLHuJSON w = Inl err" and a: "isAuthError (Some err)"
    and m: "e = authentication_failed err" by blast
  from m have ne: "e \<noteq> err" by (simp only: authentication_failed_not_raw) simp
  from m have m': "e = ''authentication failed: '' @ err @ [CHR 0x0A, CHR 0x0A]
                @ ''Please check your TSKEY environment variable contains a valid API key.''
                @ [CHR 0x0A]
                @ ''Generate a new key at: https://login.tailscale.com/admin/settings/keys''"
    by (simp only: authentication_failed_def)
  from g a m' ne
  show "\<exists>err. GetACLHuJSON w = Inl err \<and> isAuthError (Some err)
            \<and> e = ''authentication failed: '' @ err @ [CHR 0x0A, CHR 0x0A]
                @ ''Please check your TSKEY environment variable contains a valid API key.''
                @ [CHR 0x0A]
                @ ''Generate a new key at: https://login.tailscale.com/admin/settings/keys''
            \<and> e \<noteq> err"
    by blast
  show "prefix ''authentication failed: '' e"
    unfolding m' by (rule prefixI) (rule refl)
next
  have "(\<exists>e. fst (Run zero w) = Inl e) = isl (fst (Run zero w))"
    by (cases "fst (Run zero w)") simp_all
  then show "(\<exists>e. fst (Run zero w) = Inl e)
        = (\<exists>err. GetACLHuJSON w = Inl err \<and> isAuthError (Some err))"
    by (simp only: isl_Run_iff aborts_iff)
next
  show "isAuthError (Some x)
       = (sublist ''401'' x \<or> sublist ''API token invalid'' x \<or> sublist ''Unauthorized'' x
          \<or> sublist ''403'' x \<or> sublist ''Forbidden'' x)"
    by (rule isAuthError_sublist)
next
  show "\<not> isAuthError None" by (simp add: isAuthError_def)
qed

theorem Run_aborts_on_authentication_error_witness:
  "GetACLHuJSON forbidden_world = Inl ''unexpected status code: 403 Forbidden''
   \<and> isAuthError (Some ''unexpected status code: 403 Forbidden'')
   \<and> Run [] forbidden_world
       = (Inl (''authentication failed: unexpected status code: 403 Forbidden''
               @ [CHR 0x0A, CHR 0x0A]
               @ ''Please check your TSKEY environment variable contains a valid API key.''
               @ [CHR 0x0A]
               @ ''Generate a new key at: https://login.tailscale.com/admin/settings/keys''),
          [FetchPolicy])"
proof -
  have g: "GetACLHuJSON forbidden_world = Inl ''unexpected status code: 403 Forbidden''"
    by (simp add: forbidden_world_def)
  have a: "isAuthError (Some ''unexpected status code: 403 Forbidden'')"
    by code_simp
  have "Run [] forbidden_world
       = (Inl (''authentication failed: '' @ ''unexpected status code: 403 Forbidden''
               @ [CHR 0x0A, CHR 0x0A]
               @ ''Please check your TSKEY environment variable contains a valid API key.''
               @ [CHR 0x0A]
               @ ''Generate a new key at: https://login.tailscale.com/admin/settings/keys''),
          [FetchPolicy])"
    by (rule Run_aborts_on_authentication_error [of forbidden_world "[]", THEN conjunct1,
          THEN spec, THEN mp, OF conjI [OF g a]])
  then have r: "Run [] forbidden_world
       = (Inl (''authentication failed: unexpected status code: 403 Forbidden''
               @ [CHR 0x0A, CHR 0x0A]
               @ ''Please check your TSKEY environment variable contains a valid API key.''
               @ [CHR 0x0A]
               @ ''Generate a new key at: https://login.tailscale.com/admin/settings/keys''),
          [FetchPolicy])"
    by simp
  from g a r show ?thesis by (intro conjI)
qed

text \<open>
  C9, as amended. Every run fetches the policy document exactly once, first. A run that
  does not abort on an authentication error then calls the seven auditors one at a time
  in the order access-control, authentication, device, network, ssh, logging/admin, dns,
  and computes the summary once, after all of them; the report holds what the policy
  stage added and then each category's contribution in that order, and its summary is
  CalculateSummary of exactly these suggestions.
\<close>

theorem Run_order_of_a_completed_run:
  "count_list (snd (Run zero w)) FetchPolicy = 1
   \<and> hd (snd (Run zero w)) = FetchPolicy
   \<and> (\<not> aborts w \<longrightarrow>
        snd (Run zero w)
          = [FetchPolicy, AuditACL, AuditAuth, AuditDevice,
             AuditNetwork (policy_value zero w), AuditSSH (policy_value zero w),
             AuditLogging, AuditDNS, ComputeSummary]
        \<and> (\<exists>report. fst (Run zero w) = Inr report
              \<and> Suggestions report
                  = policy_findings zero w @ acl_findings w @ auth_findings w
                    @ device_findings w @ network_findings w (policy_value zero w)
                    @ ssh_findings w (policy_value zero w)
                    @ logging_findings w @ dns_findings w
              \<and> Summary report = CalculateSummary (Suggestions report)))"
proof (cases "aborts w")
  case True
  then obtain err where "GetACLHuJSON w = Inl err" and "isAuthError (Some err)"
    by (auto simp: aborts_iff)
  then have "Run zero w = (Inl (authentication_failed err), [FetchPolicy])" by (rule Run_abort)
  with True show ?thesis by simp
next
  case False
  then show ?thesis by (simp add: Run_complete category_order_def)
qed

theorem Run_order_of_a_completed_run_witness:
  "\<not> aborts base_world
   \<and> snd (Run [] base_world)
       = [FetchPolicy, AuditACL, AuditAuth, AuditDevice,
          AuditNetwork [''groups'', ''acls''], AuditSSH [''groups'', ''acls''],
          AuditLogging, AuditDNS, ComputeSummary]"
proof -
  have a: "\<not> aborts base_world"
    by (simp add: aborts_def base_world_def)
  have p: "policy_value [] base_world = [''groups'', ''acls'']"
    by (simp add: policy_value_def base_world_def)
  from Run_order_of_a_completed_run [of "[]" base_world, THEN conjunct2, THEN conjunct2,
      THEN mp, OF a, THEN conjunct1]
  have "snd (Run [] base_world)
       = [FetchPolicy, AuditACL, AuditAuth, AuditDevice,
          AuditNetwork [''groups'', ''acls''], AuditSSH [''groups'', ''acls''],
          AuditLogging, AuditDNS, ComputeSummary]"
    by (simp only: p)
  with a show ?thesis by (intro conjI)
qed

text \<open>
  C9 as stated speaks of every run. In a run whose fetch fails with "API token invalid
  (401)" the fetch is the only call: no auditor runs and no summary is computed.
\<close>

theorem every_run_runs_all_categories_counterexample:
  "GetACLHuJSON unauthorized_world = Inl ''API token invalid (401)''
   \<and> snd (Run [] unauthorized_world) = [FetchPolicy]
   \<and> AuditACL \<notin> set (snd (Run [] unauthorized_world))
   \<and> AuditDNS \<notin> set (snd (Run [] unauthorized_world))
   \<and> ComputeSummary \<notin> set (snd (Run [] unauthorized_world))
   \<and> isl (fst (Run [] unauthorized_world))"
proof -
  have g: "GetACLHuJSON unauthorized_world = Inl ''API token invalid (401)''"
    by (simp add: unauthorized_world_def)
  have a: "isAuthError (Some ''API token invalid (401)'')"
    by code_simp
  have "Run [] unauthorized_world
        = (Inl (authentication_failed ''API token invalid (401)''), [FetchPolicy])"
    using g a by (rule Run_abort)
  with g show ?thesis by simp
qed

text \<open>
  C2. In a run in which a category auditor is called and fails while the other six
  succeed, Run returns a report and no error, and the report holds what the policy
  stage added and then, in category order, the findings of the six other categories with
  exactly one placeholder in the place of the failed one: ACL-ERR, AUTH-ERR, DEV-ERR,
  NET-ERR, SSH-ERR, LOG-ERR or DNS-ERR, with Severity Medium, Pass false and a
  Description that ends in the error. This holds for each of the seven categories, and
  for any error (the error of a category auditor is not tested for authentication). In
  every run that does not abort, each category contributes its findings or its one
  placeholder, whichever auditors fail, and the summary is computed from the suggestions
  of the report.
\<close>

theorem category_failure_becomes_placeholder:
  "(\<not> aborts w \<longrightarrow>
      (\<exists>report.
          fst (Run zero w) = Inr report
          \<and> Summary report = CalculateSummary (Suggestions report)
          \<and> Suggestions report
              = policy_findings zero w
                @ contribution (error_finding ''ACL-ERR'' ''ACL audit error'' AccessControl
                    ''Error during ACL audit: '')
                    (ACLAuditor_Audit w)
                @ contribution (error_finding ''AUTH-ERR'' ''Auth audit error'' Authentication
                    ''Error during auth key audit: '')
                    (AuthAuditor_Audit w)
                @ contribution (error_finding ''DEV-ERR'' ''Device audit error'' DeviceSecurity
                    ''Error during device audit: '')
                    (DeviceAuditor_Audit w)
                @ contribution (error_finding ''NET-ERR'' ''Network audit error'' NetworkExposure
                    ''Error during network audit: '')
                    (NetworkAuditor_Audit w (policy_value zero w))
                @ contribution (error_finding ''SSH-ERR'' ''SSH audit error'' SSHSecurity
                    ''Error during SSH audit: '')
                    (SSHAuditor_Audit w (policy_value zero w))
                @ contribution (error_finding ''LOG-ERR'' ''Logging audit error'' LoggingAdmin
                    ''Error during logging audit: '')
                    (LoggingAuditor_Audit w)
                @ contribution (error_finding ''DNS-ERR'' ''DNS audit error'' DNSConfiguration
                    ''Error during DNS audit: '')
                    (DNSAuditor_Audit w)))
   \<and> (\<forall>e fb fc fn fs fl fd.
        AuditACL \<in> set (snd (Run zero w))
        \<and> ACLAuditor_Audit w = Inl e
        \<and> AuthAuditor_Audit w = Inr fb
        \<and> DeviceAuditor_Audit w = Inr fc
        \<and> NetworkAuditor_Audit w (policy_value zero w) = Inr fn
        \<and> SSHAuditor_Audit w (policy_value zero w) = Inr fs
        \<and> LoggingAuditor_Audit w = Inr fl
        \<and> DNSAuditor_Audit w = Inr fd
        \<longrightarrow>
        (\<exists>report.
          fst (Run zero w) = Inr report
          \<and> Suggestions report
              = policy_findings zero w
              @ [error_finding ''ACL-ERR'' ''ACL audit error'' AccessControl
                   ''Error during ACL audit: '' e]
              @ fb
              @ fc
              @ fn
              @ fs
              @ fl
              @ fd
          \<and> Summary report = CalculateSummary (Suggestions report)))
   \<and> (\<forall>e fa fc fn fs fl fd.
        AuditAuth \<in> set (snd (Run zero w))
        \<and> ACLAuditor_Audit w = Inr fa
        \<and> AuthAuditor_Audit w = Inl e
        \<and> DeviceAuditor_Audit w = Inr fc
        \<and> NetworkAuditor_Audit w (policy_value zero w) = Inr fn
        \<and> SSHAuditor_Audit w (policy_value zero w) = Inr fs
        \<and> LoggingAuditor_Audit w = Inr fl
        \<and> DNSAuditor_Audit w = Inr fd
        \<longrightarrow>
        (\<exists>report.
          fst (Run zero w) = Inr report
          \<and> Suggestions report
              = policy_findings zero w
              @ fa
              @ [error_finding ''AUTH-ERR'' ''Auth audit error'' Authentication
                   ''Error during auth key audit: '' e]
              @ fc
              @ fn
              @ fs
              @ fl
              @ fd
          \<and> Summary report = CalculateSummary (Suggestions report)))
   \<and> (\<forall>e fa fb fn fs fl fd.
        AuditDevice \<in> set (snd (Run zero w))
        \<and> ACLAuditor_Audit w = Inr fa
        \<and> AuthAuditor_Audit w = Inr fb
        \<and> DeviceAuditor_Audit w = Inl e
        \<and> NetworkAuditor_Audit w (policy_value zero w) = Inr fn
        \<and> SSHAuditor_Audit w (policy_value zero w) = Inr fs
        \<and> LoggingAuditor_Audit w = Inr fl
        \<and> DNSAuditor_Audit w = Inr fd
        \<longrightarrow>
        (\<exists>report.
          fst (Run zero w) = Inr report
          \<and> Suggestions report
              = policy_findings zero w
              @ fa
              @ fb
              @ [error_finding ''DEV-ERR'' ''Device audit error'' DeviceSecurity
                   ''Error during device audit: '' e]
              @ fn
              @ fs
              @ fl
              @ fd
          \<and> Summary report = CalculateSummary (Suggestions report)))
   \<and> (\<forall>e fa fb fc fs fl fd.
        AuditNetwork (policy_value zero w) \<in> set (snd (Run zero w))
        \<and> ACLAuditor_Audit w = Inr fa
        \<and> AuthAuditor_Audit w = Inr fb
        \<and> DeviceAuditor_Audit w = Inr fc
        \<and> NetworkAuditor_Audit w (policy_value zero w) = Inl e
        \<and> SSHAuditor_Audit w (policy_value zero w) = Inr fs
        \<and> LoggingAuditor_Audit w = Inr fl
        \<and> DNSAuditor_Audit w = Inr fd
        \<longrightarrow>
        (\<exists>report.
          fst (Run zero w) = Inr report
          \<and> Suggestions report
              = policy_findings zero w
              @ fa
              @ fb
              @ fc
              @ [error_finding ''NET-ERR'' ''Network audit error'' NetworkExposure
                   ''Error during network audit: '' e]
              @ fs
              @ fl
              @ fd
          \<and> Summary report = CalculateSummary (Suggestions report)))
   \<and> (\<forall>e fa fb fc fn fl fd.
        AuditSSH (policy_value zero w) \<in> set (snd (Run zero w))
        \<and> ACLAuditor_Audit w = Inr fa
        \<and> AuthAuditor_Audit w = Inr fb
        \<and> DeviceAuditor_Audit w = Inr fc
        \<and> NetworkAuditor_Audit w (policy_value zero w) = Inr fn
        \<and> SSHAuditor_Audit w (policy_value zero w) = Inl e
        \<and> LoggingAuditor_Audit w = Inr fl
        \<and> DNSAuditor_Audit w = Inr fd
        \<longrightarrow>
        (\<exists>report.
          fst (Run zero w) = Inr report
          \<and> Suggestions report
              = policy_findings zero w
              @ fa
              @ fb
              @ fc
              @ fn
              @ [error_finding ''SSH-ERR'' ''SSH audit error'' SSHSecurity
                   ''Error during SSH audit: '' e]
              @ fl
              @ fd
          \<and> Summary report = CalculateSummary (Suggestions report)))
   \<and> (\<forall>e fa fb fc fn fs fd.
        AuditLogging \<in> set (snd (Run zero w))
        \<and> ACLAuditor_Audit w = Inr fa
        \<and> AuthAuditor_Audit w = Inr fb
        \<and> DeviceAuditor_Audit w = Inr fc
        \<and> NetworkAuditor_Audit w (policy_value zero w) = Inr fn
        \<and> SSHAuditor_Audit w (policy_value zero w) = Inr fs
        \<and> LoggingAuditor_Audit w = Inl e
        \<and> DNSAuditor_Audit w = Inr fd
        \<longrightarrow>
        (\<exists>report.
          fst (Run zero w) = Inr report
          \<and> Suggestions report
              = policy_findings zero w
              @ fa
              @ fb
              @ fc
              @ fn
              @ fs
              @ [error_finding ''LOG-ERR'' ''Logging audit error'' LoggingAdmin
                   ''Error during logging audit: '' e]
              @ fd
          \<and> Summary report = CalculateSummary (Suggestions report)))
   \<and> (\<forall>e fa fb fc fn fs fl.
        AuditDNS \<in> set (snd (Run zero w))
        \<and> ACLAuditor_Audit w = Inr fa
        \<and> AuthAuditor_Audit w = Inr fb
        \<and> DeviceAuditor_Audit w = Inr fc
        \<and> NetworkAuditor_Audit w (policy_value zero w) = Inr fn
        \<and> SSHAuditor_Audit w (policy_value zero w) = Inr fs
        \<and> LoggingAuditor_Audit w = Inr fl
        \<and> DNSAuditor_Audit w = Inl e
        \<longrightarrow>
        (\<exists>report.
          fst (Run zero w) = Inr report
          \<and> Suggestions report
              = policy_findings zero w
              @ fa
              @ fb
              @ fc
              @ fn
              @ fs
              @ fl
              @ [error_finding ''DNS-ERR'' ''DNS audit error'' DNSConfiguration
                   ''Error during DNS audit: '' e]
          \<and> Summary report = CalculateSummary (Suggestions report)))
   \<and> (\<forall>i t cat what x.
        error_finding i t cat what x
          = \<lparr>ID_f = i, Title_f = t, Severity = Medium, Category_f = cat,
             Description = what @ x, Remediation = [], Details = [], Pass = False,
             Fix = None\<rparr>)
   \<and> (\<forall>ph x fs. contribution ph (Inl x) = [ph x] \<and> contribution ph (Inr fs) = fs)
   \<and> (\<forall>i t cat what x. sublist x (Description (error_finding i t cat what x)))"
proof (intro conjI)
  show "(\<not> aborts w \<longrightarrow>
      (\<exists>report.
          fst (Run zero w) = Inr report
          \<and> Summary report = CalculateSummary (Suggestions report)
          \<and> Suggestions report
              = policy_findings zero w
                @ contribution (error_finding ''ACL-ERR'' ''ACL audit error'' AccessControl
                    ''Error during ACL audit: '')
                    (ACLAuditor_Audit w)
                @ contribution (error_finding ''AUTH-ERR'' ''Auth audit error'' Authentication
                    ''Error during auth key audit: '')
                    (AuthAuditor_Audit w)
                @ contribution (error_finding ''DEV-ERR'' ''Device audit error'' DeviceSecurity
                    ''Error during device audit: '')
                    (DeviceAuditor_Audit w)
                @ contribution (error_finding ''NET-ERR'' ''Network audit error'' NetworkExposure
                    ''Error during network audit: '')
                    (NetworkAuditor_Audit w (policy_value zero w))
                @ contribution (error_finding ''SSH-ERR'' ''SSH audit error'' SSHSecurity
                    ''Error during SSH audit: '')
                    (SSHAuditor_Audit w (policy_value zero w))
                @ contribution (error_finding ''LOG-ERR'' ''Logging audit error'' LoggingAdmin
                    ''Error during logging audit: '')
                    (LoggingAuditor_Audit w)
                @ contribution (error_finding ''DNS-ERR'' ''DNS audit error'' DNSConfiguration
                    ''Error during DNS audit: '')
                    (DNSAuditor_Audit w)))"
  proof
    assume na: "\<not> aborts w"
    from Run_report [OF na, of zero] show "(\<exists>report.
          fst (Run zero w) = Inr report
          \<and> Summary report = CalculateSummary (Suggestions report)
          \<and> Suggestions report
              = policy_findings zero w
                @ contribution (error_finding ''ACL-ERR'' ''ACL audit error'' AccessControl
                    ''Error during ACL audit: '')
                    (ACLAuditor_Audit w)
                @ contribution (error_finding ''AUTH-ERR'' ''Auth audit error'' Authentication
                    ''Error during auth key audit: '')
                    (AuthAuditor_Audit w)
                @ contribution (error_finding ''DEV-ERR'' ''Device audit error'' DeviceSecurity
                    ''Error during device audit: '')
                    (DeviceAuditor_Audit w)
                @ contribution (error_finding ''NET-ERR'' ''Network audit error'' NetworkExposure
                    ''Error during network audit: '')
                    (NetworkAuditor_Audit w (policy_value zero w))
                @ contribution (error_finding ''SSH-ERR'' ''SSH audit error'' SSHSecurity
                    ''Error during SSH audit: '')
                    (SSHAuditor_Audit w (policy_value zero w))
                @ contribution (error_finding ''LOG-ERR'' ''Logging audit error'' LoggingAdmin
                    ''Error during logging audit: '')
                    (LoggingAuditor_Audit w)
                @ contribution (error_finding ''DNS-ERR'' ''DNS audit error'' DNSConfiguration
                    ''Error during DNS audit: '')
                    (DNSAuditor_Audit w))"
      unfolding acl_findings_def auth_findings_def device_findings_def network_findings_def
        ssh_findings_def logging_findings_def dns_findings_def
      by blast
  qed
  show "(\<forall>e fb fc fn fs fl fd.
        AuditACL \<in> set (snd (Run zero w))
        \<and> ACLAuditor_Audit w = Inl e
        \<and> AuthAuditor_Audit w = Inr fb
        \<and> DeviceAuditor_Audit w = Inr fc
        \<and> NetworkAuditor_Audit w (policy_value zero w) = Inr fn
        \<and> SSHAuditor_Audit w (policy_value zero w) = Inr fs
        \<and> LoggingAuditor_Audit w = Inr fl
        \<and> DNSAuditor_Audit w = Inr fd
        \<longrightarrow>
        (\<exists>report.
          fst (Run zero w) = Inr report
          \<and> Suggestions report
              = policy_findings zero w
              @ [error_finding ''ACL-ERR'' ''ACL audit error'' AccessControl
                   ''Error during ACL audit: '' e]
              @ fb
              @ fc
              @ fn
              @ fs
              @ fl
              @ fd
          \<and> Summary report = CalculateSummary (Suggestions report)))"
    by (intro allI impI) (elim conjE, rule single_failure_acl, assumption+)
  show "(\<forall>e fa fc fn fs fl fd.
        AuditAuth \<in> set (snd (Run zero w))
        \<and> ACLAuditor_Audit w = Inr fa
        \<and> AuthAuditor_Audit w = Inl e
        \<and> DeviceAuditor_Audit w = Inr fc
        \<and> NetworkAuditor_Audit w (policy_value zero w) = Inr fn
        \<and> SSHAuditor_Audit w (policy_value zero w) = Inr fs
        \<and> LoggingAuditor_Audit w = Inr fl
        \<and> DNSAuditor_Audit w = Inr fd
        \<longrightarrow>
        (\<exists>report.
          fst (Run zero w) = Inr report
          \<and> Suggestions report
              = policy_findings zero w
              @ fa
              @ [error_finding ''AUTH-ERR'' ''Auth audit error'' Authentication
                   ''Error during auth key audit: '' e]
              @ fc
              @ fn
              @ fs
              @ fl
              @ fd
          \<and> Summary report = CalculateSummary (Suggestions report)))"
    by (intro allI impI) (elim conjE, rule single_failure_auth, assumption+)
  show "(\<forall>e fa fb fn fs fl fd.
        AuditDevice \<in> set (snd (Run zero w))
        \<and> ACLAuditor_Audit w = Inr fa
        \<and> AuthAuditor_Audit w = Inr fb
        \<and> DeviceAuditor_Audit w = Inl e
        \<and> NetworkAuditor_Audit w (policy_value zero w) = Inr fn
        \<and> SSHAuditor_Audit w (policy_value zero w) = Inr fs
        \<and> LoggingAuditor_Audit w = Inr fl
        \<and> DNSAuditor_Audit w = Inr fd
        \<longrightarrow>
        (\<exists>report.
          fst (Run zero w) = Inr report
          \<and> Suggestions report
              = policy_findings zero w
              @ fa
              @ fb
              @ [error_finding ''DEV-ERR'' ''Device audit error'' DeviceSecurity
                   ''Error during device audit: '' e]
              @ fn
              @ fs
              @ fl
              @ fd
          \<and> Summary report = CalculateSummary (Suggestions report)))"
    by (intro allI impI) (elim conjE, rule single_failure_device, assumption+)
  show "(\<forall>e fa fb fc fs fl fd.
        AuditNetwork (policy_value zero w) \<in> set (snd (Run zero w))
        \<and> ACLAuditor_Audit w = Inr fa
        \<and> AuthAuditor_Audit w = Inr fb
        \<and> DeviceAuditor_Audit w = Inr fc
        \<and> NetworkAuditor_Audit w (policy_value zero w) = Inl e
        \<and> SSHAuditor_Audit w (policy_value zero w) = Inr fs
        \<and> LoggingAuditor_Audit w = Inr fl
        \<and> DNSAuditor_Audit w = Inr fd
        \<longrightarrow>
        (\<exists>report.
          fst (Run zero w) = Inr report
          \<and> Suggestions report
              = policy_findings zero w
              @ fa
              @ fb
              @ fc
              @ [error_finding ''NET-ERR'' ''Network audit error'' NetworkExposure
                   ''Error during network audit: '' e]
              @ fs
              @ fl
              @ fd
          \<and> Summary report = CalculateSummary (Suggestions report)))"
    by (intro allI impI) (elim conjE, rule single_failure_network, assumption+)
  show "(\<forall>e fa fb fc fn fl fd.
        AuditSSH (policy_value zero w) \<in> set (snd (Run zero w))
        \<and> ACLAuditor_Audit w = Inr fa
        \<and> AuthAuditor_Audit w = Inr fb
        \<and> DeviceAuditor_Audit w = Inr fc
        \<and> NetworkAuditor_Audit w (policy_value zero w) = Inr fn
        \<and> SSHAuditor_Audit w (policy_value zero w) = Inl e
        \<and> LoggingAuditor_Audit w = Inr fl
        \<and> DNSAuditor_Audit w = Inr fd
        \<longrightarrow>
        (\<exists>report.
          fst (Run zero w) = Inr report
          \<and> Suggestions report
              = policy_findings zero w
              @ fa
              @ fb
              @ fc
              @ fn
              @ [error_finding ''SSH-ERR'' ''SSH audit error'' SSHSecurity
                   ''Error during SSH audit: '' e]
              @ fl
              @ fd
          \<and> Summary report = CalculateSummary (Suggestions report)))"
    by (intro allI impI) (elim conjE, rule single_failure_ssh, assumption+)
  show "(\<forall>e fa fb fc fn fs fd.
        AuditLogging \<in> set (snd (Run zero w))
        \<and> ACLAuditor_Audit w = Inr fa
        \<and> AuthAuditor_Audit w = Inr fb
        \<and> DeviceAuditor_Audit w = Inr fc
        \<and> NetworkAuditor_Audit w (policy_value zero w) = Inr fn
        \<and> SSHAuditor_Audit w (policy_value zero w) = Inr fs
        \<and> LoggingAuditor_Audit w = Inl e
        \<and> DNSAuditor_Audit w = Inr fd
        \<longrightarrow>
        (\<exists>report.
          fst (Run zero w) = Inr report
          \<and> Suggestions report
              = policy_findings zero w
              @ fa
              @ fb
              @ fc
              @ fn
              @ fs
              @ [error_finding ''LOG-ERR'' ''Logging audit error'' LoggingAdmin
                   ''Error during logging audit: '' e]
              @ fd
          \<and> Summary report = CalculateSummary (Suggestions report)))"
    by (intro allI impI) (elim conjE, rule single_failure_logging, assumption+)
  show "(\<forall>e fa fb fc fn fs fl.
        AuditDNS \<in> set (snd (Run zero w))
        \<and> ACLAuditor_Audit w = Inr fa
        \<and> AuthAuditor_Audit w = Inr fb
        \<and> DeviceAuditor_Audit w = Inr fc
        \<and> NetworkAuditor_Audit w (policy_value zero w) = Inr fn
        \<and> SSHAuditor_Audit w (policy_value zero w) = Inr fs
        \<and> LoggingAuditor_Audit w = Inr fl
        \<and> DNSAuditor_Audit w = Inl e
        \<longrightarrow>
        (\<exists>report.
          fst (Run zero w) = Inr report
          \<and> Suggestions report
              = policy_findings zero w
              @ fa
              @ fb
              @ fc
              @ fn
              @ fs
              @ fl
              @ [error_finding ''DNS-ERR'' ''DNS audit error'' DNSConfiguration
                   ''Error during DNS audit: '' e]
          \<and> Summary report = CalculateSummary (Suggestions report)))"
    by (intro allI impI) (elim conjE, rule single_failure_dns, assumption+)
  show "(\<forall>i t cat what x.
        error_finding i t cat what x
          = \<lparr>ID_f = i, Title_f = t, Severity = Medium, Category_f = cat,
             Description = what @ x, Remediation = [], Details = [], Pass = False,
             Fix = None\<rparr>)"
    by (simp add: error_finding_def)
  show "(\<forall>ph x fs. contribution ph (Inl x) = [ph x] \<and> contribution ph (Inr fs) = fs)"
    by (simp add: contribution_def)
  show "(\<forall>i t cat what x. sublist x (Description (error_finding i t cat what x)))"
    by (simp add: error_finding_def)
qed

theorem category_failure_becomes_placeholder_witness:
  "AuditDevice \<in> set (snd (Run [] device_down_world))
   \<and> DeviceAuditor_Audit device_down_world = Inl ''context deadline exceeded''
   \<and> (\<exists>report.
        fst (Run [] device_down_world) = Inr report
        \<and> Suggestions report
            = [finding ''ACL-003'' ''No ACL tests defined'' Low AccessControl [] [] False,
               \<lparr>ID_f = ''DEV-ERR'', Title_f = ''Device audit error'', Severity = Medium,
                Category_f = DeviceSecurity,
                Description = ''Error during device audit: context deadline exceeded'',
                Remediation = [], Details = [], Pass = False, Fix = None\<rparr>])
   \<and> AuditACL \<in> set (snd (Run [] acl_down_world))
   \<and> ACLAuditor_Audit acl_down_world = Inl ''context deadline exceeded''
   \<and> (\<exists>report.
        fst (Run [] acl_down_world) = Inr report
        \<and> Suggestions report
            = [\<lparr>ID_f = ''ACL-ERR'', Title_f = ''ACL audit error'', Severity = Medium,
                Category_f = AccessControl,
                Description = ''Error during ACL audit: context deadline exceeded'',
                Remediation = [], Details = [], Pass = False, Fix = None\<rparr>,
               finding ''DEV-010'' ''Tailnet Lock not enabled'' High DeviceSecurity [] []
                 False])"
proof -
  let ?d = device_down_world
  let ?a = acl_down_world
  have nad: "\<not> aborts ?d"
    by (simp add: aborts_def device_down_world_def base_world_def)
  have naa: "\<not> aborts ?a"
    by (simp add: aborts_def acl_down_world_def base_world_def)
  have rand: "AuditDevice \<in> set (snd (Run [] ?d))"
    by (simp add: Run_complete [OF nad] category_order_def)
  have rana: "AuditACL \<in> set (snd (Run [] ?a))"
    by (simp add: Run_complete [OF naa] category_order_def)
  have pvd: "policy_value [] ?d = [''groups'', ''acls'']"
    by (simp add: policy_value_def device_down_world_def base_world_def)
  have pva: "policy_value [] ?a = [''groups'', ''acls'']"
    by (simp add: policy_value_def acl_down_world_def base_world_def)
  have pfd: "policy_findings [] ?d = []"
    by (simp add: policy_findings_def device_down_world_def base_world_def)
  have pfa: "policy_findings [] ?a = []"
    by (simp add: policy_findings_def acl_down_world_def base_world_def)
  have hd: "AuditDevice \<in> set (snd (Run [] ?d))
      \<and> ACLAuditor_Audit ?d
          = Inr [finding ''ACL-003'' ''No ACL tests defined'' Low AccessControl [] [] False]
      \<and> AuthAuditor_Audit ?d = Inr []
      \<and> DeviceAuditor_Audit ?d = Inl ''context deadline exceeded''
      \<and> NetworkAuditor_Audit ?d (policy_value [] ?d) = Inr []
      \<and> SSHAuditor_Audit ?d (policy_value [] ?d) = Inr []
      \<and> LoggingAuditor_Audit ?d = Inr []
      \<and> DNSAuditor_Audit ?d = Inr []"
    using rand by (simp add: device_down_world_def base_world_def)
  have ha: "AuditACL \<in> set (snd (Run [] ?a))
      \<and> ACLAuditor_Audit ?a = Inl ''context deadline exceeded''
      \<and> AuthAuditor_Audit ?a = Inr []
      \<and> DeviceAuditor_Audit ?a
          = Inr [finding ''DEV-010'' ''Tailnet Lock not enabled'' High DeviceSecurity [] []
                   False]
      \<and> NetworkAuditor_Audit ?a (policy_value [] ?a) = Inr []
      \<and> SSHAuditor_Audit ?a (policy_value [] ?a) = Inr []
      \<and> LoggingAuditor_Audit ?a = Inr []
      \<and> DNSAuditor_Audit ?a = Inr []"
    using rana by (simp add: acl_down_world_def base_world_def)
  note device_part = category_failure_becomes_placeholder [where w = ?d and zero = "[]",
      THEN conjunct2, THEN conjunct2, THEN conjunct2, THEN conjunct1, rule_format, OF hd]
  note acl_part = category_failure_becomes_placeholder [where w = ?a and zero = "[]",
      THEN conjunct2, THEN conjunct1, rule_format, OF ha]
  from device_part have rd: "\<exists>report.
        fst (Run [] ?d) = Inr report
        \<and> Suggestions report
            = [finding ''ACL-003'' ''No ACL tests defined'' Low AccessControl [] [] False,
               \<lparr>ID_f = ''DEV-ERR'', Title_f = ''Device audit error'', Severity = Medium,
                Category_f = DeviceSecurity,
                Description = ''Error during device audit: context deadline exceeded'',
                Remediation = [], Details = [], Pass = False, Fix = None\<rparr>]"
    by (simp add: pfd error_finding_def) blast
  from acl_part have ra: "\<exists>report.
        fst (Run [] ?a) = Inr report
        \<and> Suggestions report
            = [\<lparr>ID_f = ''ACL-ERR'', Title_f = ''ACL audit error'', Severity = Medium,
                Category_f = AccessControl,
                Description = ''Error during ACL audit: context deadline exceeded'',
                Remediation = [], Details = [], Pass = False, Fix = None\<rparr>,
               finding ''DEV-010'' ''Tailnet Lock not enabled'' High DeviceSecurity [] []
                 False]"
    by (simp add: pfa error_finding_def) blast
  have od: "DeviceAuditor_Audit ?d = Inl ''context deadline exceeded''"
    using hd by (elim conjE)
  have oa: "ACLAuditor_Audit ?a = Inl ''context deadline exceeded''"
    using ha by (elim conjE)
  from rand od rd rana oa ra show ?thesis by (intro conjI)
qed

text \<open>
  C3, as amended. When the fetch of the policy document fails with an error that is not
  of the authentication class, the run adds exactly one placeholder Suggestion with ID
  "SYS-001", Severity High and Pass false, whose Description contains the message of the
  error, and goes on to run all seven categories, the policy-dependent ones on the
  zero-value policy.
\<close>

theorem policy_fetch_failure_becomes_SYS_001:
  assumes fetch: "GetACLHuJSON w = Inl err"
    and other: "\<not> isAuthError (Some err)"
  shows "\<exists>report.
      Run zero w
        = (Inr report,
           [FetchPolicy, AuditACL, AuditAuth, AuditDevice, AuditNetwork zero, AuditSSH zero,
            AuditLogging, AuditDNS, ComputeSummary])
      \<and> Suggestions report
          = [finding ''SYS-001'' ''Could not retrieve ACL policy'' High AccessControl
               (''Failed to retrieve ACL policy: '' @ err
                  @ ''. ACL-related checks will be skipped.'')
               ''Verify API key has sufficient permissions to read ACL policy.'' False]
            @ acl_findings w @ auth_findings w @ device_findings w
            @ network_findings w zero @ ssh_findings w zero
            @ logging_findings w @ dns_findings w
      \<and> sublist err (''Failed to retrieve ACL policy: '' @ err
                        @ ''. ACL-related checks will be skipped.'')"
proof -
  from fetch other have na: "\<not> aborts w" by (simp add: aborts_def)
  from fetch have pv: "policy_value zero w = zero" by (simp add: policy_value_def)
  from fetch have pf: "policy_findings zero w
      = [finding ''SYS-001'' ''Could not retrieve ACL policy'' High AccessControl
               (''Failed to retrieve ACL policy: '' @ err
                  @ ''. ACL-related checks will be skipped.'')
               ''Verify API key has sufficient permissions to read ACL policy.'' False]"
    by (simp add: policy_findings_def)
  have sl: "sublist err (''Failed to retrieve ACL policy: '' @ err
                        @ ''. ACL-related checks will be skipped.'')"
    by (rule sublist_appendI)
  show ?thesis
    unfolding Run_complete [OF na] pv pf category_order_def using sl by simp
qed

theorem policy_fetch_failure_becomes_SYS_001_witness:
  "GetACLHuJSON fetch_timeout_world = Inl ''context deadline exceeded''
   \<and> \<not> isAuthError (Some ''context deadline exceeded'')
   \<and> snd (Run [] fetch_timeout_world)
       = [FetchPolicy, AuditACL, AuditAuth, AuditDevice, AuditNetwork [], AuditSSH [],
          AuditLogging, AuditDNS, ComputeSummary]"
proof -
  have g: "GetACLHuJSON fetch_timeout_world = Inl ''context deadline exceeded''"
    by (simp add: fetch_timeout_world_def)
  have a: "\<not> isAuthError (Some ''context deadline exceeded'')"
    by code_simp
  from policy_fetch_failure_becomes_SYS_001 [OF g a, of "[]"]
  have "snd (Run [] fetch_timeout_world)
       = [FetchPolicy, AuditACL, AuditAuth, AuditDevice, AuditNetwork [], AuditSSH [],
          AuditLogging, AuditDNS, ComputeSummary]"
    by auto
  with g a show ?thesis by (intro conjI)
qed

text \<open>
  C3 as stated asks for a placeholder with an ID of the pattern CATEGORY-ERR and Severity
  Medium. In the run whose fetch fails with "context deadline exceeded" and whose
  auditors all succeed, the report has the IDs SYS-001, ACL-003 and DEV-010: no ID ends
  in -ERR and no suggestion has Severity Medium.
\<close>

theorem policy_fetch_placeholder_counterexample:
  "GetACLHuJSON fetch_timeout_world = Inl ''context deadline exceeded''
   \<and> \<not> isAuthError (Some ''context deadline exceeded'')
   \<and> (\<exists>report.
        fst (Run [] fetch_timeout_world) = Inr report
        \<and> map ID_f (Suggestions report) = [''SYS-001'', ''ACL-003'', ''DEV-010'']
        \<and> map Severity (Suggestions report) = [High, Low, High]
        \<and> \<not> (\<exists>s \<in> set (Suggestions report). suffix ''-ERR'' (ID_f s))
        \<and> \<not> (\<exists>s \<in> set (Suggestions report). Severity s = Medium))"
proof -
  have g: "GetACLHuJSON fetch_timeout_world = Inl ''context deadline exceeded''"
    by (simp add: fetch_timeout_world_def)
  have a: "\<not> isAuthError (Some ''context deadline exceeded'')"
    by code_simp
  have x: "\<not> suffix ''-ERR'' ''SYS-001''" "\<not> suffix ''-ERR'' ''ACL-003''"
    "\<not> suffix ''-ERR'' ''DEV-010''"
    by code_simp+
  have "\<exists>report.
        fst (Run [] fetch_timeout_world) = Inr report
        \<and> map ID_f (Suggestions report) = [''SYS-001'', ''ACL-003'', ''DEV-010'']
        \<and> map Severity (Suggestions report) = [High, Low, High]
        \<and> \<not> (\<exists>s \<in> set (Suggestions report). suffix ''-ERR'' (ID_f s))
        \<and> \<not> (\<exists>s \<in> set (Suggestions report). Severity s = Medium)"
    unfolding Run_fetch_timeout_world using x by (simp add: finding_def)
  with g a show ?thesis by (intro conjI)
qed

text \<open>
  C4, as amended. When the policy document is fetched but does not parse, the run adds
  exactly one parse-warning Suggestion (ID "SYS-002", Severity Low, marked Pass=true) and
  all seven auditors still run. The network and ssh auditors receive the zero-value
  policy when hujson.Standardize fails, and the policy variable as json.Unmarshal left
  it when json.Unmarshal fails.
\<close>

theorem parse_failure_warning_and_policy:
  assumes fetch: "GetACLHuJSON w = Inr acl"
  shows "(\<forall>e. hujson_Standardize w acl = Inl e \<longrightarrow>
            (\<exists>report.
               Run zero w
                 = (Inr report,
                    [FetchPolicy, AuditACL, AuditAuth, AuditDevice, AuditNetwork zero,
                     AuditSSH zero, AuditLogging, AuditDNS, ComputeSummary])
               \<and> Suggestions report
                   = [finding ''SYS-002'' ''ACL policy parsing warning'' Low AccessControl
                        (''Could not standardize HuJSON ACL: '' @ e
                           @ ''. Some checks may be incomplete.'') [] True]
                     @ acl_findings w @ auth_findings w @ device_findings w
                     @ network_findings w zero @ ssh_findings w zero
                     @ logging_findings w @ dns_findings w))
    \<and> (\<forall>std p e. hujson_Standardize w acl = Inr std \<and> json_Unmarshal w std zero = (p, Some e)
          \<longrightarrow>
            (\<exists>report.
               Run zero w
                 = (Inr report,
                    [FetchPolicy, AuditACL, AuditAuth, AuditDevice, AuditNetwork p,
                     AuditSSH p, AuditLogging, AuditDNS, ComputeSummary])
               \<and> Suggestions report
                   = [finding ''SYS-002'' ''ACL policy parsing warning'' Low AccessControl
                        (''ACL policy could not be fully parsed: '' @ e
                           @ ''. Some checks may be incomplete.'') [] True]
                     @ acl_findings w @ auth_findings w @ device_findings w
                     @ network_findings w p @ ssh_findings w p
                     @ logging_findings w @ dns_findings w))"
proof (intro conjI allI impI)
  from fetch have na: "\<not> aborts w" by (simp add: aborts_def)
  {
    fix e assume st: "hujson_Standardize w acl = Inl e"
    from fetch st have pv: "policy_value zero w = zero" by (simp add: policy_value_def)
    from fetch st have pf: "policy_findings zero w
        = [finding ''SYS-002'' ''ACL policy parsing warning'' Low AccessControl
             (''Could not standardize HuJSON ACL: '' @ e
                @ ''. Some checks may be incomplete.'') [] True]"
      by (simp add: policy_findings_def)
    show "\<exists>report.
               Run zero w
                 = (Inr report,
                    [FetchPolicy, AuditACL, AuditAuth, AuditDevice, AuditNetwork zero,
                     AuditSSH zero, AuditLogging, AuditDNS, ComputeSummary])
               \<and> Suggestions report
                   = [finding ''SYS-002'' ''ACL policy parsing warning'' Low AccessControl
                        (''Could not standardize HuJSON ACL: '' @ e
                           @ ''. Some checks may be incomplete.'') [] True]
                     @ acl_findings w @ auth_findings w @ device_findings w
                     @ network_findings w zero @ ssh_findings w zero
                     @ logging_findings w @ dns_findings w"
      unfolding Run_complete [OF na] pv pf category_order_def by simp
  }
  {
    fix std p e
    assume "hujson_Standardize w acl = Inr std \<and> json_Unmarshal w std zero = (p, Some e)"
    then have st: "hujson_Standardize w acl = Inr std"
      and un: "json_Unmarshal w std zero = (p, Some e)" by simp_all
    from fetch st un have pv: "policy_value zero w = p" by (simp add: policy_value_def)
    from fetch st un have pf: "policy_findings zero w
        = [finding ''SYS-002'' ''ACL policy parsing warning'' Low AccessControl
             (''ACL policy could not be fully parsed: '' @ e
                @ ''. Some checks may be incomplete.'') [] True]"
      by (simp add: policy_findings_def)
    show "\<exists>report.
               Run zero w
                 = (Inr report,
                    [FetchPolicy, AuditACL, AuditAuth, AuditDevice, AuditNetwork p,
                     AuditSSH p, AuditLogging, AuditDNS, ComputeSummary])
               \<and> Suggestions report
                   = [finding ''SYS-002'' ''ACL policy parsing warning'' Low AccessControl
                        (''ACL policy could not be fully parsed: '' @ e
                           @ ''. Some checks may be incomplete.'') [] True]
                     @ acl_findings w @ auth_findings w @ device_findings w
                     @ network_findings w p @ ssh_findings w p
                     @ logging_findings w @ dns_findings w"
      unfolding Run_complete [OF na] pv pf category_order_def by simp
  }
qed

theorem parse_failure_warning_and_policy_witness:
  "GetACLHuJSON bad_hujson_world = Inr policy_document
   \<and> hujson_Standardize bad_hujson_world policy_document
       = Inl ''hujson: line 1, column 2: invalid character''
   \<and> snd (Run [] bad_hujson_world)
       = [FetchPolicy, AuditACL, AuditAuth, AuditDevice, AuditNetwork [], AuditSSH [],
          AuditLogging, AuditDNS, ComputeSummary]
   \<and> GetACLHuJSON partial_parse_world = Inr policy_document
   \<and> hujson_Standardize partial_parse_world policy_document = Inr policy_document
   \<and> json_Unmarshal partial_parse_world policy_document []
       = ([''groups''],
          Some ''json: cannot unmarshal number into Go struct field ACLPolicy.acls'')
   \<and> snd (Run [] partial_parse_world)
       = [FetchPolicy, AuditACL, AuditAuth, AuditDevice, AuditNetwork [''groups''],
          AuditSSH [''groups''], AuditLogging, AuditDNS, ComputeSummary]"
proof -
  have g1: "GetACLHuJSON bad_hujson_world = Inr policy_document"
    by (simp add: bad_hujson_world_def base_world_def)
  have s1: "hujson_Standardize bad_hujson_world policy_document
       = Inl ''hujson: line 1, column 2: invalid character''"
    by (simp add: bad_hujson_world_def)
  from parse_failure_warning_and_policy [OF g1, of "[]", THEN conjunct1, THEN spec, THEN mp, OF s1]
  have r1: "snd (Run [] bad_hujson_world)
       = [FetchPolicy, AuditACL, AuditAuth, AuditDevice, AuditNetwork [], AuditSSH [],
          AuditLogging, AuditDNS, ComputeSummary]"
    by auto
  have g2: "GetACLHuJSON partial_parse_world = Inr policy_document"
    by (simp add: partial_parse_world_def base_world_def)
  have s2: "hujson_Standardize partial_parse_world policy_document = Inr policy_document"
    by (simp add: partial_parse_world_def base_world_def)
  have u2: "json_Unmarshal partial_parse_world policy_document []
       = ([''groups''],
          Some ''json: cannot unmarshal number into Go struct field ACLPolicy.acls'')"
    by (simp add: partial_parse_world_def)
  from parse_failure_warning_and_policy [OF g2, of "[]", THEN conjunct2, THEN spec, THEN spec,
      THEN spec, THEN mp, OF conjI [OF s2 u2]]
  have r2: "snd (Run [] partial_parse_world)
       = [FetchPolicy, AuditACL, AuditAuth, AuditDevice, AuditNetwork [''groups''],
          AuditSSH [''groups''], AuditLogging, AuditDNS, ComputeSummary]"
    by auto
  from g1 s1 r1 g2 s2 u2 r2 show ?thesis by (intro conjI)
qed

text \<open>
  C4 as stated has the network and ssh auditors receive the zero-value policy in both
  cases. json.Unmarshal fills the fields it can decode before it returns a type error;
  in the run where it has decoded the groups section and then fails, both auditors are
  called with that policy, not with the zero value.
\<close>

theorem parse_failure_zero_policy_counterexample:
  "GetACLHuJSON partial_parse_world = Inr policy_document
   \<and> hujson_Standardize partial_parse_world policy_document = Inr policy_document
   \<and> snd (json_Unmarshal partial_parse_world policy_document [])
       = Some ''json: cannot unmarshal number into Go struct field ACLPolicy.acls''
   \<and> AuditNetwork [''groups''] \<in> set (snd (Run [] partial_parse_world))
   \<and> AuditSSH [''groups''] \<in> set (snd (Run [] partial_parse_world))
   \<and> AuditNetwork [] \<notin> set (snd (Run [] partial_parse_world))
   \<and> AuditSSH [] \<notin> set (snd (Run [] partial_parse_world))"
proof -
  have g2: "GetACLHuJSON partial_parse_world = Inr policy_document"
    by (simp add: partial_parse_world_def base_world_def)
  have s2: "hujson_Standardize partial_parse_world policy_document = Inr policy_document"
    by (simp add: partial_parse_world_def base_world_def)
  have u2: "snd (json_Unmarshal partial_parse_world policy_document [])
       = Some ''json: cannot unmarshal number into Go struct field ACLPolicy.acls''"
    by (simp add: partial_parse_world_def)
  show ?thesis
    unfolding Run_partial_parse_world using g2 s2 u2 by simp
qed

end
